theory Spec2Isabelle
  imports Main
begin

section \<open>Strings and the built-in operations the program calls\<close>

text \<open>
  A JavaScript string is a sequence of code units. The model is \<open>string\<close>: a list of
  \<open>char\<close>, each standing for the code unit of the same number, U+0000 to U+00FF
  (Latin-1 text). Every operation below is the built-in of the same name, on that range.

  \<open>String.prototype.trim\<close> removes WhiteSpace and LineTerminator code points from both
  ends. In the range of the model these are TAB, LF, VT, FF, CR, SPACE and NO-BREAK SPACE.
\<close>

definition isWhiteSpace :: "char \<Rightarrow> bool" where
  "isWhiteSpace c =
     (c = CHR 0x09 \<or> c = CHR 0x0A \<or> c = CHR 0x0B \<or> c = CHR 0x0C \<or> c = CHR 0x0D \<or>
      c = CHR 0x20 \<or> c = CHR 0xA0)"

definition trim :: "string \<Rightarrow> string" where
  "trim s = rev (dropWhile isWhiteSpace (rev (dropWhile isWhiteSpace s)))"

text \<open>
  \<open>s.split(sep)\<close> for a separator of one character, the only kind the program uses
  (\<open>'\n'\<close>, \<open>'.'\<close>, \<open>'/'\<close>). The result is never empty: \<open>''.split(sep)\<close> is \<open>['']\<close>.
\<close>

fun split :: "char \<Rightarrow> string \<Rightarrow> string list" where
  "split sep [] = [[]]"
| "split sep (c # cs) =
     (if c = sep then [] # split sep cs
      else (case split sep cs of [] \<Rightarrow> [[c]] | l # ls \<Rightarrow> (c # l) # ls))"

text \<open>
  The text that \<open>xs.join(sep)\<close> builds. Where the length of that text can matter, the
  operation is \<open>join_throwing\<close> below.
\<close>

fun join :: "string \<Rightarrow> string list \<Rightarrow> string" where
  "join sep [] = []"
| "join sep [x] = x"
| "join sep (x # y # ys) = x @ sep @ join sep (y # ys)"

text \<open>
  \<open>xs.pop()\<close> read for its value only: the last element, \<open>undefined\<close> (here \<open>None\<close>)
  on an empty array.
\<close>

definition pop :: "'a list \<Rightarrow> 'a option" where
  "pop xs = (if xs = [] then None else Some (last xs))"

text \<open>
  \<open>s.match(/c/g)\<close> for a regular expression that is one literal character: the array of
  all matches, or \<open>null\<close> (here \<open>None\<close>) when there is none. \<open>or_empty\<close> is the
  \<open>|| []\<close> that follows it in the source.
\<close>

definition match_all :: "char \<Rightarrow> string \<Rightarrow> string list option" where
  "match_all c s =
     (let ms = map (\<lambda>x. [x]) (filter (\<lambda>x. x = c) s) in if ms = [] then None else Some ms)"

definition or_empty :: "'a list option \<Rightarrow> 'a list" where
  "or_empty m = (case m of None \<Rightarrow> [] | Some ms \<Rightarrow> ms)"

datatype error = RangeError | TypeError | Error string

text \<open>
  An engine has a maximal string length, and an operation that would build a longer
  string throws \<open>RangeError: Invalid string length\<close>. The limit differs between engines
  (in V8 it is \<open>2^29 - 24 = 536870888\<close> code units), so it is an argument, \<open>maxLength\<close>,
  of the operations that build a string in the formatting routines, and of the routines.
  \<open>s.repeat(n)\<close> throws a RangeError on a negative count as well; \<open>string_plus\<close> is
  \<open>a + b\<close> on strings; \<open>join_throwing\<close> is \<open>xs.join(sep)\<close>.
\<close>

definition repeat :: "nat \<Rightarrow> string \<Rightarrow> int \<Rightarrow> error + string" where
  "repeat maxLength s n =
     (if n < 0 \<or> maxLength < length s * nat n then Inl RangeError
      else Inr (concat (replicate (nat n) s)))"

definition string_plus :: "nat \<Rightarrow> string \<Rightarrow> string \<Rightarrow> error + string" where
  "string_plus maxLength a b =
     (if maxLength < length a + length b then Inl RangeError else Inr (a @ b))"

definition join_throwing :: "nat \<Rightarrow> string \<Rightarrow> string list \<Rightarrow> error + string" where
  "join_throwing maxLength sep xs =
     (if maxLength < length (join sep xs) then Inl RangeError else Inr (join sep xs))"

text \<open>\<open>xs.map(f)\<close> for a callback that may throw: the first exception ends the loop.\<close>

fun map_throwing :: "('a \<Rightarrow> error + 'b) \<Rightarrow> 'a list \<Rightarrow> error + 'b list" where
  "map_throwing f [] = Inr []"
| "map_throwing f (x # xs) =
     (case f x of
        Inl e \<Rightarrow> Inl e
      | Inr y \<Rightarrow> (case map_throwing f xs of Inl e \<Rightarrow> Inl e | Inr ys \<Rightarrow> Inr (y # ys)))"

text \<open>
  \<open>s.toLowerCase()\<close> on Latin-1 text maps each character by itself: A to Z, and the
  accented capitals U+00C0 to U+00DE other than the multiplication sign U+00D7, move up
  by 32; every other character stays.
\<close>

definition lower_char :: "char \<Rightarrow> char" where
  "lower_char c =
     (let n = (of_char c :: nat) in
      if (65 \<le> n \<and> n \<le> 90) \<or> (192 \<le> n \<and> n \<le> 222 \<and> n \<noteq> 215) then char_of (n + 32) else c)"

definition toLowerCase :: "string \<Rightarrow> string" where
  "toLowerCase s = map lower_char s"

fun startsWith :: "string \<Rightarrow> string \<Rightarrow> bool" where
  "startsWith s [] = True"
| "startsWith [] (p # ps) = False"
| "startsWith (c # cs) (p # ps) = (c = p \<and> startsWith cs ps)"

definition endsWith :: "string \<Rightarrow> string \<Rightarrow> bool" where
  "endsWith s suffix = startsWith (rev s) (rev suffix)"

text \<open>\<open>s.includes(sub)\<close>: \<open>sub\<close> occurs in \<open>s\<close> at some position.\<close>

fun js_includes :: "string \<Rightarrow> string \<Rightarrow> bool" where
  "js_includes [] sub = (sub = [])"
| "js_includes (c # cs) sub = (startsWith (c # cs) sub \<or> js_includes cs sub)"

section \<open>formatter.ts: the four formatting routines\<close>

text \<open>
  Each routine is a \<open>try\<close> block around one chain of array operations, and a \<open>catch\<close>
  that returns the input. The chain is the function named \<open>_try\<close>; the callback of its
  last \<open>map\<close> is the function named \<open>_line\<close>. The chain can throw where it builds a
  string: in \<open>repeat\<close>, in the \<open>+\<close> of the callback, and in \<open>join\<close>. The first argument
  is the maximal string length of the engine.
\<close>

definition formatJavaScript_line :: "nat \<Rightarrow> string \<Rightarrow> error + string" where
  "formatJavaScript_line maxLength line =
     (let indentLevel = int (length (or_empty (match_all CHR ''{'' line)))
                        - int (length (or_empty (match_all CHR ''}'' line)))
      in case repeat maxLength ''  '' (max 0 indentLevel) of
           Inl e \<Rightarrow> Inl e
         | Inr indent \<Rightarrow> string_plus maxLength indent line)"

definition formatJavaScript_try :: "nat \<Rightarrow> string \<Rightarrow> error + string" where
  "formatJavaScript_try maxLength code =
     (case map_throwing (formatJavaScript_line maxLength)
             (filter (\<lambda>line. length line > 0) (map trim (split CHR 0x0A code))) of
        Inl e \<Rightarrow> Inl e
      | Inr lines \<Rightarrow> join_throwing maxLength [CHR 0x0A] lines)"

definition formatJavaScript :: "nat \<Rightarrow> string \<Rightarrow> string" where
  "formatJavaScript maxLength code =
     (case formatJavaScript_try maxLength code of Inr r \<Rightarrow> r | Inl e \<Rightarrow> code)"

definition formatJava_line :: "nat \<Rightarrow> string \<Rightarrow> error + string" where
  "formatJava_line maxLength line =
     (let indentLevel = int (length (or_empty (match_all CHR ''{'' line)))
                        - int (length (or_empty (match_all CHR ''}'' line)))
      in case repeat maxLength ''    '' (max 0 indentLevel) of
           Inl e \<Rightarrow> Inl e
         | Inr indent \<Rightarrow> string_plus maxLength indent line)"

definition formatJava_try :: "nat \<Rightarrow> string \<Rightarrow> error + string" where
  "formatJava_try maxLength code =
     (case map_throwing (formatJava_line maxLength)
             (filter (\<lambda>line. length line > 0) (map trim (split CHR 0x0A code))) of
        Inl e \<Rightarrow> Inl e
      | Inr lines \<Rightarrow> join_throwing maxLength [CHR 0x0A] lines)"

definition formatJava :: "nat \<Rightarrow> string \<Rightarrow> string" where
  "formatJava maxLength code =
     (case formatJava_try maxLength code of Inr r \<Rightarrow> r | Inl e \<Rightarrow> code)"

definition formatPython_line :: "nat \<Rightarrow> string \<Rightarrow> error + string" where
  "formatPython_line maxLength line =
     (let indentLevel = int (length (or_empty (match_all CHR '':'' line)))
      in case repeat maxLength ''    '' (max 0 indentLevel) of
           Inl e \<Rightarrow> Inl e
         | Inr indent \<Rightarrow> string_plus maxLength indent line)"

definition formatPython_try :: "nat \<Rightarrow> string \<Rightarrow> error + string" where
  "formatPython_try maxLength code =
     (case map_throwing (formatPython_line maxLength)
             (filter (\<lambda>line. length line > 0) (map trim (split CHR 0x0A code))) of
        Inl e \<Rightarrow> Inl e
      | Inr lines \<Rightarrow> join_throwing maxLength [CHR 0x0A] lines)"

definition formatPython :: "nat \<Rightarrow> string \<Rightarrow> string" where
  "formatPython maxLength code =
     (case formatPython_try maxLength code of Inr r \<Rightarrow> r | Inl e \<Rightarrow> code)"

definition formatC_line :: "nat \<Rightarrow> string \<Rightarrow> error + string" where
  "formatC_line maxLength line =
     (let indentLevel = int (length (or_empty (match_all CHR ''{'' line)))
                        - int (length (or_empty (match_all CHR ''}'' line)))
      in case repeat maxLength ''    '' (max 0 indentLevel) of
           Inl e \<Rightarrow> Inl e
         | Inr indent \<Rightarrow> string_plus maxLength indent line)"

definition formatC_try :: "nat \<Rightarrow> string \<Rightarrow> error + string" where
  "formatC_try maxLength code =
     (case map_throwing (formatC_line maxLength)
             (filter (\<lambda>line. length line > 0) (map trim (split CHR 0x0A code))) of
        Inl e \<Rightarrow> Inl e
      | Inr lines \<Rightarrow> join_throwing maxLength [CHR 0x0A] lines)"

definition formatC :: "nat \<Rightarrow> string \<Rightarrow> string" where
  "formatC maxLength code =
     (case formatC_try maxLength code of Inr r \<Rightarrow> r | Inl e \<Rightarrow> code)"

section \<open>The formatting rule as the specification words it\<close>

text \<open>
  Split on newline, trim every line, discard the lines that became empty, prefix each
  surviving line with the indent unit repeated \<open>max(0, level)\<close> times, join with
  newlines. The level of a brace-depth family is the count of \<open>{\<close> minus the count of
  \<open>}\<close> in the line; the level of the colon-count family is the count of \<open>:\<close>.
\<close>

definition surviving_lines :: "string \<Rightarrow> string list" where
  "surviving_lines s = filter (\<lambda>l. l \<noteq> []) (map trim (split CHR 0x0A s))"

definition brace_level :: "string \<Rightarrow> int" where
  "brace_level l = int (count_list l CHR ''{'') - int (count_list l CHR ''}'')"

definition colon_level :: "string \<Rightarrow> int" where
  "colon_level l = int (count_list l CHR '':'')"

definition indent_line :: "nat \<Rightarrow> (string \<Rightarrow> int) \<Rightarrow> string \<Rightarrow> string" where
  "indent_line width level l = replicate (width * nat (max 0 (level l))) CHR '' '' @ l"

definition reindent :: "nat \<Rightarrow> (string \<Rightarrow> int) \<Rightarrow> string \<Rightarrow> string" where
  "reindent width level s = join [CHR 0x0A] (map (indent_line width level) (surviving_lines s))"


section \<open>formatter.ts: choosing a routine, and formatCode\<close>

text \<open>
  \<open>formatters[ext]\<close> is a property read on an object literal. It finds the literal's own
  keys first and then the members every object inherits from \<open>Object.prototype\<close>. The
  key read is always a result of \<open>toLowerCase\<close>, and two inherited members have names
  without a capital letter: \<open>constructor\<close>, whose value is the function \<open>Object\<close>, and
  \<open>__proto__\<close>, whose value is the object \<open>Object.prototype\<close> itself. Both values are
  truthy, so the \<open>||\<close> that follows the read keeps them.
\<close>

datatype builtin = ObjectFunction | ObjectPrototype

definition inherited :: "string \<Rightarrow> builtin option" where
  "inherited key =
     (if key = ''constructor'' then Some ObjectFunction
      else if key = ''__proto__'' then Some ObjectPrototype
      else None)"

definition get_property :: "(string \<times> 'a) list \<Rightarrow> string \<Rightarrow> ('a + builtin) option" where
  "get_property obj key =
     (case map_of obj key of
        Some v \<Rightarrow> Some (Inl v)
      | None \<Rightarrow> (case inherited key of Some b \<Rightarrow> Some (Inr b) | None \<Rightarrow> None))"

text \<open>
  What \<open>getFormatter\<close> returns: one of the four routines, the arrow function
  \<open>(code) => code\<close> (here \<open>Identity\<close>), or an inherited value.
\<close>

datatype formatter =
  FormatJavaScript | FormatJava | FormatPython | FormatC | Identity | Inherited builtin

definition formatters :: "(string \<times> formatter) list" where
  "formatters =
     [(''js'', FormatJavaScript), (''jsx'', FormatJavaScript), (''ts'', FormatJavaScript),
      (''tsx'', FormatJavaScript), (''java'', FormatJava), (''py'', FormatPython),
      (''c'', FormatC), (''cpp'', FormatC), (''h'', FormatC), (''hpp'', FormatC)]"

text \<open>
  \<open>filename.split('.').pop()?.toLowerCase() || ''\<close>: \<open>?.\<close> passes \<open>undefined\<close> on, and
  \<open>||\<close> replaces \<open>undefined\<close> and the empty string by its right side.
\<close>

definition or_string :: "string option \<Rightarrow> string \<Rightarrow> string" where
  "or_string v d = (case v of None \<Rightarrow> d | Some s \<Rightarrow> if s = [] then d else s)"

definition extension :: "string \<Rightarrow> string" where
  "extension filename = or_string (map_option toLowerCase (pop (split CHR ''.'' filename))) []"

definition getFormatter :: "string \<Rightarrow> formatter" where
  "getFormatter filename =
     (let ext = extension filename
      in case get_property formatters ext of
           Some (Inl f) \<Rightarrow> f
         | Some (Inr b) \<Rightarrow> Inherited b
         | None \<Rightarrow> Identity)"

text \<open>
  The call \<open>formatter(content)\<close>. \<open>Object(content)\<close> returns a String wrapper object, not
  the string; \<open>Object.prototype\<close> is not callable, and calling it throws a TypeError.
\<close>

datatype jsvalue = Primitive string | StringObject string

fun call_formatter :: "nat \<Rightarrow> formatter \<Rightarrow> string \<Rightarrow> error + jsvalue" where
  "call_formatter maxLength FormatJavaScript code = Inr (Primitive (formatJavaScript maxLength code))"
| "call_formatter maxLength FormatJava code = Inr (Primitive (formatJava maxLength code))"
| "call_formatter maxLength FormatPython code = Inr (Primitive (formatPython maxLength code))"
| "call_formatter maxLength FormatC code = Inr (Primitive (formatC maxLength code))"
| "call_formatter maxLength Identity code = Inr (Primitive code)"
| "call_formatter maxLength (Inherited ObjectFunction) code = Inr (StringObject code)"
| "call_formatter maxLength (Inherited ObjectPrototype) code = Inl TypeError"

text \<open>
  The two FileInfo interfaces: the readme generator's has three fields, the formatter's
  adds \<open>formatted\<close>.
\<close>

record FileInfo =
  name :: string
  content :: string
  path :: string

record FormattedFileInfo = FileInfo +
  formatted :: jsvalue

text \<open>
  The upload. \<open>file_text\<close> is what \<open>file.text()\<close> resolves to. \<open>file_zip\<close> is what the
  archive reader makes of the file: \<open>Inl\<close> when \<open>loadAsync\<close> rejects, otherwise the list
  \<open>Object.entries(zipContent.files)\<close>, each key with its entry. That list is not the
  order of the archive: an object has one property for a name, and it lists the keys that
  are array indices first, in numeric order. An entry has the flag \<open>dir\<close> and the result
  of \<open>async('string')\<close>, \<open>Inl\<close> when that rejects.
\<close>

record ZipObject =
  dir :: bool
  async_string :: "error + string"

record File =
  file_name :: string
  file_text :: string
  file_zip :: "error + (string \<times> ZipObject) list"

text \<open>
  The body of the \<open>for\<close> loop over the entries; \<open>files\<close> is the array it pushes to. The
  locals \<open>path\<close>, \<open>content\<close>, \<open>name\<close> and \<open>formatted\<close> of the source are \<open>p\<close>, \<open>c\<close>,
  \<open>n\<close> and \<open>f\<close> here, where the record fields have those names. Whatever is thrown
  inside the \<open>try\<close> of the ZIP branch is replaced by the error of its \<open>catch\<close>.
\<close>

fun formatCode_entries ::
  "nat \<Rightarrow> (string \<times> ZipObject) list \<Rightarrow> FormattedFileInfo list
     \<Rightarrow> error + FormattedFileInfo list" where
  "formatCode_entries maxLength [] files = Inr files"
| "formatCode_entries maxLength ((p, zipFile) # rest) files =
     (if \<not> dir zipFile then
        (case async_string zipFile of
           Inl e \<Rightarrow> Inl e
         | Inr c \<Rightarrow>
             (let n = or_string (pop (split CHR ''/'' p)) [];
                  formatter = getFormatter n
              in case call_formatter maxLength formatter c of
                   Inl e \<Rightarrow> Inl e
                 | Inr f \<Rightarrow>
                     formatCode_entries maxLength rest
                       (files @ [\<lparr>name = n, content = c, path = p, formatted = f\<rparr>])))
      else formatCode_entries maxLength rest files)"

definition formatCode :: "nat \<Rightarrow> File \<Rightarrow> error + FormattedFileInfo list" where
  "formatCode maxLength file =
     (if endsWith (file_name file) ''.zip'' then
        (case (case file_zip file of
                 Inl e \<Rightarrow> Inl e
               | Inr entries \<Rightarrow> formatCode_entries maxLength entries []) of
           Inl e \<Rightarrow> Inl (Error ''Failed to process ZIP file'')
         | Inr files \<Rightarrow> Inr files)
      else
        (let c = file_text file;
             formatter = getFormatter (file_name file)
         in case call_formatter maxLength formatter c of
              Inl e \<Rightarrow> Inl e
            | Inr f \<Rightarrow>
                Inr [\<lparr>name = file_name file, content = c, path = file_name file, formatted = f\<rparr>]))"

text \<open>
  What the specification says of an identity-formatting extension in its testable
  properties: the input with each line trimmed and the empty lines dropped, and no
  reindenting.
\<close>

definition trim_and_drop_blank :: "string \<Rightarrow> string" where
  "trim_and_drop_blank s = join [CHR 0x0A] (filter (\<lambda>l. l \<noteq> []) (map trim (split CHR 0x0A s)))"


section \<open>readme-generator.ts: values, objects and the file tree\<close>

text \<open>
  The generator builds its texts with joins and concatenations too. Its model leaves the
  maximal string length out: it describes the runs in which no text outgrows the limit.
\<close>

text \<open>
  The values the generator stores in its objects: strings, numbers (only lengths and
  counts occur), nested objects, and the two inherited values of the previous section.
  An object is the list of its own properties in the order \<open>Object.entries\<close> lists them.
\<close>

datatype jsv =
  JString string | JNumber nat | JObject "(string \<times> jsv) list" | JBuiltin builtin

definition truthy :: "jsv option \<Rightarrow> bool" where
  "truthy v =
     (case v of
        None \<Rightarrow> False
      | Some (JString s) \<Rightarrow> s \<noteq> []
      | Some (JNumber n) \<Rightarrow> n \<noteq> 0
      | Some (JObject _) \<Rightarrow> True
      | Some (JBuiltin _) \<Rightarrow> True)"

text \<open>Decimal digits of a count, as a template literal prints a number.\<close>

function number_toString :: "nat \<Rightarrow> string" where
  "number_toString n =
     (if n < 10 then [char_of (48 + n)]
      else number_toString (n div 10) @ [char_of (48 + n mod 10)])"
  by pat_completeness auto
termination
  by (relation "measure (\<lambda>n. n)") auto

declare number_toString.simps [simp del]

text \<open>
  The conversion to a string that a template literal and a property key apply. An
  object without a \<open>toString\<close> of its own prints as \<open>[object Object]\<close>.
\<close>

definition toString :: "jsv \<Rightarrow> string" where
  "toString v =
     (case v of
        JString s \<Rightarrow> s
      | JNumber n \<Rightarrow> number_toString n
      | JObject _ \<Rightarrow> ''[object Object]''
      | JBuiltin ObjectFunction \<Rightarrow> ''function Object() { [native code] }''
      | JBuiltin ObjectPrototype \<Rightarrow> ''[object Object]'')"

definition typeMap :: "(string \<times> jsv) list" where
  "typeMap =
     [(''js'', JString ''JavaScript''), (''jsx'', JString ''React JSX''),
      (''ts'', JString ''TypeScript''), (''tsx'', JString ''React TypeScript''),
      (''css'', JString ''CSS''), (''scss'', JString ''SCSS''), (''html'', JString ''HTML''),
      (''json'', JString ''JSON''), (''md'', JString ''Markdown''), (''py'', JString ''Python''),
      (''java'', JString ''Java''), (''cpp'', JString ''C++''), (''c'', JString ''C''),
      (''go'', JString ''Go''), (''rs'', JString ''Rust''), (''php'', JString ''PHP''),
      (''rb'', JString ''Ruby'')]"

definition getFileType :: "string \<Rightarrow> jsv" where
  "getFileType filename =
     (let ext = extension filename
      in case get_property typeMap ext of
           Some (Inl label) \<Rightarrow> label
         | Some (Inr b) \<Rightarrow> JBuiltin b
         | None \<Rightarrow> JString ''Plain text'')"

text \<open>
  Own properties are listed with the array-index keys first, in numeric order, and the
  other keys after them in the order of their creation. An array index is the canonical
  decimal numeral of a number below \<open>2^32 - 1\<close>.
\<close>

definition isDigit :: "char \<Rightarrow> bool" where
  "isDigit c = (48 \<le> (of_char c :: nat) \<and> (of_char c :: nat) \<le> 57)"

definition decimal :: "string \<Rightarrow> nat" where
  "decimal s = foldl (\<lambda>a c. 10 * a + ((of_char c :: nat) - 48)) 0 s"

definition array_index :: "string \<Rightarrow> nat option" where
  "array_index key =
     (if key \<noteq> [] \<and> list_all isDigit key \<and> (key = ''0'' \<or> hd key \<noteq> CHR ''0'')
         \<and> decimal key < 4294967295
      then Some (decimal key) else None)"

fun insert_index :: "nat \<Rightarrow> string \<Rightarrow> jsv \<Rightarrow> (string \<times> jsv) list \<Rightarrow> (string \<times> jsv) list" where
  "insert_index n key v [] = [(key, v)]"
| "insert_index n key v ((k, w) # rest) =
     (case array_index k of
        Some m \<Rightarrow> if m < n then (k, w) # insert_index n key v rest
                  else (key, v) # (k, w) # rest
      | None \<Rightarrow> (key, v) # (k, w) # rest)"

text \<open>\<open>obj[key] = v\<close> on an object that has no setter for \<open>key\<close>.\<close>

definition set_property :: "(string \<times> jsv) list \<Rightarrow> string \<Rightarrow> jsv \<Rightarrow> (string \<times> jsv) list" where
  "set_property obj key v =
     (if key \<in> fst ` set obj then map (\<lambda>(k, w). if k = key then (k, v) else (k, w)) obj
      else (case array_index key of
              Some n \<Rightarrow> insert_index n key v obj
            | None \<Rightarrow> obj @ [(key, v)]))"

text \<open>
  The members of \<open>Object.prototype\<close>. A directory segment with one of these names, in
  a node that has no property of that name of its own, reads the inherited value where the
  code expects a directory, and the writes that follow go to an object that the whole page
  shares. A last segment \<open>__proto__\<close> makes the file's object the prototype of the node.
  The model stops at both with \<open>Unmodelled\<close>, which is a limit of the model and no
  exception of the program. Any other last segment creates a property of the node, whatever
  its name. \<open>Thrown\<close> is an exception of the program.
\<close>

definition object_prototype_members :: "string list" where
  "object_prototype_members =
     [''constructor'', ''__defineGetter__'', ''__defineSetter__'', ''hasOwnProperty'',
      ''__lookupGetter__'', ''__lookupSetter__'', ''isPrototypeOf'', ''propertyIsEnumerable'',
      ''toString'', ''valueOf'', ''__proto__'', ''toLocaleString'']"

datatype stop = Thrown error | Unmodelled

text \<open>
  The inner \<open>forEach\<close> of \<open>buildFileTree\<close> over the parts of one path; \<open>current\<close> is the
  object the loop stands in, and the result is that object after the loop. A part that is
  not the last one steps into \<open>current[part] || {}\<close>. When that value is a string or a
  non-zero number (the \<open>type\<close> or \<open>size\<close> of a file that an earlier path created), the
  assignment of the next round writes a property of a primitive, which throws a TypeError
  in a module.
\<close>

fun insert_parts :: "string list \<Rightarrow> jsv \<Rightarrow> (string \<times> jsv) list \<Rightarrow> stop + (string \<times> jsv) list" where
  "insert_parts [] leaf current = Inr current"
| "insert_parts [part] leaf current =
     (if part = ''__proto__'' then Inl Unmodelled
      else Inr (set_property current part leaf))"
| "insert_parts (part # next # rest) leaf current =
     (let child = (case map_of current part of
                     Some v \<Rightarrow> if truthy (Some v) then Some v else Some (JObject [])
                   | None \<Rightarrow> if part \<in> set object_prototype_members then None
                             else Some (JObject []))
      in case child of
           None \<Rightarrow> Inl Unmodelled
         | Some (JObject c) \<Rightarrow>
             (case insert_parts (next # rest) leaf c of
                Inl e \<Rightarrow> Inl e
              | Inr c' \<Rightarrow> Inr (set_property current part (JObject c')))
         | Some (JBuiltin b) \<Rightarrow> Inl Unmodelled
         | Some (JString s) \<Rightarrow> Inl (Thrown TypeError)
         | Some (JNumber n) \<Rightarrow> Inl (Thrown TypeError))"

fun buildFileTree_loop ::
  "'a FileInfo_scheme list \<Rightarrow> (string \<times> jsv) list \<Rightarrow> stop + (string \<times> jsv) list" where
  "buildFileTree_loop [] tree = Inr tree"
| "buildFileTree_loop (file # files) tree =
     (let parts = split CHR ''/'' (path file);
          leaf = JObject [(''type'', getFileType (last parts)),
                          (''size'', JNumber (length (content file)))]
      in case insert_parts parts leaf tree of
           Inl e \<Rightarrow> Inl e
         | Inr tree' \<Rightarrow> buildFileTree_loop files tree')"

definition buildFileTree :: "'a FileInfo_scheme list \<Rightarrow> stop + (string \<times> jsv) list" where
  "buildFileTree files = buildFileTree_loop files []"


text \<open>
  The characters of the source text outside Latin-1 (the box-drawing characters of the
  tree and the emoji of the headings) stand in the model as the bytes of their UTF-8
  encoding. The program only concatenates them.
\<close>

definition box_up_right :: string where
  "box_up_right = [CHR 0xE2, CHR 0x94, CHR 0x94]"

definition box_vertical_right :: string where
  "box_vertical_right = [CHR 0xE2, CHR 0x94, CHR 0x9C]"

definition box_horizontal :: string where
  "box_horizontal = [CHR 0xE2, CHR 0x94, CHR 0x80]"

definition box_vertical :: string where
  "box_vertical = [CHR 0xE2, CHR 0x94, CHR 0x82]"

definition emoji :: "nat \<Rightarrow> nat \<Rightarrow> string" where
  "emoji a b = [CHR 0xF0, CHR 0x9F, char_of a, char_of b]"

text \<open>\<open>value.type\<close>: only an object of the tree can have the property.\<close>

definition get_type :: "jsv \<Rightarrow> jsv option" where
  "get_type v = (case v of JObject obj \<Rightarrow> map_of obj ''type'' | _ \<Rightarrow> None)"

text \<open>
  The conversion of \<open>${v}\<close> in a template literal. An object of the tree with a property
  \<open>toString\<close> of its own (a file of that name below it) has no conversion: the property
  is no function, the inherited \<open>valueOf\<close> returns the object itself, and the engine
  throws a TypeError.
\<close>

definition template_string :: "jsv \<Rightarrow> error + string" where
  "template_string v =
     (case v of
        JObject obj \<Rightarrow> if map_of obj ''toString'' = None then Inr (toString v) else Inl TypeError
      | _ \<Rightarrow> Inr (toString v))"

text \<open>
  \<open>generateTreeMarkdown\<close> goes through the entries of an object; the first argument is
  the list of the entries still to print, and an entry is the last one when none follows.
  \<open>Object.entries\<close> of a number or of an inherited value is empty. Of a non-empty string it
  lists the characters, each a string again without a \<open>type\<close>, so the recursion never
  ends and the engine throws a RangeError.
\<close>

fun generateTreeMarkdown :: "(string \<times> jsv) list \<Rightarrow> string \<Rightarrow> stop + string" where
  "generateTreeMarkdown [] prefix = Inr []"
| "generateTreeMarkdown ((n, v) # rest) prefix =
     (let isLast = (rest = []);
          connector = (if isLast then box_up_right @ box_horizontal @ box_horizontal @ '' ''
                       else box_vertical_right @ box_horizontal @ box_horizontal @ '' '');
          newPrefix = prefix @ (if isLast then ''    '' else box_vertical @ ''   '');
          label = (case get_type v of
                     None \<Rightarrow> Inr [CHR 0x0A]
                   | Some t \<Rightarrow>
                       if truthy (Some t) then
                         (case template_string t of
                            Inl e \<Rightarrow> Inl (Thrown e)
                          | Inr s \<Rightarrow> Inr ('' ('' @ s @ '')'' @ [CHR 0x0A]))
                       else Inr [CHR 0x0A])
      in case label of
           Inl e \<Rightarrow> Inl e
         | Inr l \<Rightarrow>
             (case (if \<not> truthy (get_type v) then
                      (case v of
                         JObject obj \<Rightarrow> generateTreeMarkdown obj newPrefix
                       | JString s \<Rightarrow> if s = [] then Inr [] else Inl (Thrown RangeError)
                       | JNumber k \<Rightarrow> Inr []
                       | JBuiltin b \<Rightarrow> Inr [])
                    else Inr []) of
                Inl e \<Rightarrow> Inl e
              | Inr sub \<Rightarrow>
                  (case generateTreeMarkdown rest prefix of
                     Inl e \<Rightarrow> Inl e
                   | Inr following \<Rightarrow> Inr (prefix @ connector @ n @ l @ sub @ following))))"

section \<open>readme-generator.ts: statistics, frameworks, main file\<close>

text \<open>\<open>stats[type] = (stats[type] || 0) + 1\<close>; a new key goes to the end.\<close>

definition increment :: "(string \<times> nat) list \<Rightarrow> string \<Rightarrow> (string \<times> nat) list" where
  "increment stats key =
     (case map_of stats key of
        None \<Rightarrow> stats @ [(key, 1)]
      | Some c \<Rightarrow> map (\<lambda>(k, w). if k = key then (k, c + 1) else (k, w)) stats)"

definition analyzeCodebase :: "'a FileInfo_scheme list \<Rightarrow> (string \<times> nat) list" where
  "analyzeCodebase files =
     foldl (\<lambda>stats file. increment stats (toString (getFileType (name file)))) [] files"

definition quoted :: "string \<Rightarrow> string" where
  "quoted s = [CHR 0x22] @ s @ [CHR 0x22]"

definition push_if :: "bool \<Rightarrow> string \<Rightarrow> string list \<Rightarrow> string list" where
  "push_if b label frameworks = (if b then frameworks @ [label] else frameworks)"

definition allContent :: "'a FileInfo_scheme list \<Rightarrow> string" where
  "allContent files = join '' '' (map (\<lambda>f. toLowerCase (content f)) files)"

definition packageJson :: "'a FileInfo_scheme list \<Rightarrow> string" where
  "packageJson files =
     or_string (map_option content (find (\<lambda>f. name f = ''package.json'') files)) []"

definition detectFrameworks :: "'a FileInfo_scheme list \<Rightarrow> string list" where
  "detectFrameworks files =
     (let frameworks = [];
          frameworks = push_if (js_includes (packageJson files) (quoted ''react'')) ''React'' frameworks;
          frameworks = push_if (js_includes (packageJson files) (quoted ''vue'')) ''Vue.js'' frameworks;
          frameworks = push_if (js_includes (packageJson files) (quoted ''@angular/core'')) ''Angular'' frameworks;
          frameworks = push_if (js_includes (allContent files) ''django'') ''Django'' frameworks;
          frameworks = push_if (js_includes (allContent files) ''flask'') ''Flask'' frameworks;
          frameworks = push_if (js_includes (allContent files) ''express'') ''Express.js'' frameworks;
          frameworks = push_if (js_includes (allContent files) ''spring-boot'') ''Spring Boot'' frameworks
      in frameworks)"

definition mainFilePatterns :: "string list" where
  "mainFilePatterns =
     [''index.ts'', ''index.js'', ''main.py'', ''app.py'', ''server.js'', ''app.js'', ''index.html'']"

fun findMainFile_loop :: "string list \<Rightarrow> 'a FileInfo_scheme list \<Rightarrow> 'a FileInfo_scheme option" where
  "findMainFile_loop [] files = None"
| "findMainFile_loop (pattern # rest) files =
     (case find (\<lambda>f. toLowerCase (name f) = pattern) files of
        Some mainFile \<Rightarrow> Some mainFile
      | None \<Rightarrow> findMainFile_loop rest files)"

definition findMainFile :: "'a FileInfo_scheme list \<Rightarrow> 'a FileInfo_scheme option" where
  "findMainFile files = findMainFile_loop mainFilePatterns files"


section \<open>readme-generator.ts: the template\<close>

definition fence :: string where
  "fence = [CHR 0x60, CHR 0x60, CHR 0x60]"

definition backtick :: string where
  "backtick = [CHR 0x60]"

text \<open>The interpolations of the template, one definition each, in the order they occur.\<close>

definition stats_section :: "(string \<times> nat) list \<Rightarrow> string" where
  "stats_section stats =
     join [CHR 0x0A]
       (map (\<lambda>(type, count). ''- '' @ type @ '': '' @ number_toString count @ '' file''
                               @ (if count > 1 then ''s'' else []))
            stats)"

definition technologies_section :: "string list \<Rightarrow> string" where
  "technologies_section frameworks =
     (if length frameworks \<noteq> 0 then
        ''## '' @ emoji 0x9B 0xA0 @ '' Technologies Used'' @ [CHR 0x0A]
        @ ''This project uses the following frameworks/libraries:'' @ [CHR 0x0A]
        @ join [CHR 0x0A] (map (\<lambda>f. ''- '' @ f) frameworks)
      else [])"

definition main_entry_section :: "'a FileInfo_scheme option \<Rightarrow> string" where
  "main_entry_section mainFile =
     (case mainFile of
        Some m \<Rightarrow>
          ''The main entry point is '' @ backtick @ path m @ backtick @ '':'' @ [CHR 0x0A]
          @ [CHR 0x0A]
          @ fence @ (case pop (split CHR ''.'' (name m)) of None \<Rightarrow> ''undefined'' | Some e \<Rightarrow> e)
          @ [CHR 0x0A]
          @ join [CHR 0x0A] (take 10 (split CHR 0x0A (content m)))
          @ (if length (split CHR 0x0A (content m)) > 10 then [CHR 0x0A] @ ''...'' else [])
          @ [CHR 0x0A]
          @ fence
      | None \<Rightarrow> ''No clear entry point detected.'')"

text \<open>\<open>typeof content === 'object'\<close> and \<open>Object.keys(content).length\<close>.\<close>

definition is_object :: "jsv \<Rightarrow> bool" where
  "is_object v = (case v of JObject _ \<Rightarrow> True | JBuiltin ObjectPrototype \<Rightarrow> True | _ \<Rightarrow> False)"

definition keys_length :: "jsv \<Rightarrow> nat" where
  "keys_length v = (case v of JObject obj \<Rightarrow> length obj | _ \<Rightarrow> 0)"

definition structure_section :: "(string \<times> jsv) list \<Rightarrow> string" where
  "structure_section tree =
     join [CHR 0x0A, CHR 0x0A]
       (filter (\<lambda>s. s \<noteq> [])
          (map (\<lambda>(d, c).
                  if is_object c \<and> \<not> truthy (get_type c) then
                    ''### /'' @ d @ [CHR 0x0A]
                    @ ''Contains '' @ number_toString (keys_length c)
                    @ '' files/directories for '' @ toLowerCase d @ '' related functionality.''
                  else [])
               tree))"

definition config_section :: "'a FileInfo_scheme list \<Rightarrow> string" where
  "config_section files =
     join [CHR 0x0A]
       (map (\<lambda>f. ''- '' @ backtick @ path f @ backtick @ '': ''
                  @ (if js_includes (name f) ''package.json''
                     then ''Project dependencies and scripts''
                     else ''Configuration settings''))
            (filter (\<lambda>f. js_includes (name f) ''config'' \<or> js_includes (name f) ''.rc''
                          \<or> endsWith (name f) ''.json'')
                    files))"

definition stack_note :: "string list \<Rightarrow> string" where
  "stack_note frameworks =
     (if length frameworks \<noteq> 0 then ''modern stack with '' @ join '', '' frameworks
      else ''custom stack'')"

definition organization_note :: "'a FileInfo_scheme list \<Rightarrow> string" where
  "organization_note files =
     (if list_ex (\<lambda>f. js_includes (path f) ''src/'') files then ''a src-based'' else ''a flat'')"

definition language_note :: "(string \<times> nat) list \<Rightarrow> string" where
  "language_note stats =
     (case map_of stats ''TypeScript'' of
        None \<Rightarrow> ''JavaScript is used as the primary language''
      | Some c \<Rightarrow> if c \<noteq> 0 then ''TypeScript is used for type safety''
                  else ''JavaScript is used as the primary language'')"

text \<open>
  The template literal: its lines, each ended by a newline. The record holds the values
  of the interpolations.
\<close>

record interpolations =
  treeText :: string
  fileCount :: string
  statsText :: string
  technologies :: string
  mainEntry :: string
  structureText :: string
  configFiles :: string
  stackNote :: string
  organizationNote :: string
  languageNote :: string

definition template :: "interpolations \<Rightarrow> string" where
  "template v =
     concat (map (\<lambda>l. l @ [CHR 0x0A])
       [''# Project Documentation'',
        [],
        ''## '' @ emoji 0x93 0x81 @ '' Project Structure'',
        fence,
        treeText v,
        fence,
        [],
        ''## '' @ emoji 0x94 0x8D @ '' Project Overview'',
        ''This project contains '' @ fileCount v @ '' files across various technologies:'',
        statsText v,
        [],
        technologies v,
        [],
        ''## '' @ emoji 0x9A 0x80 @ '' Getting Started'',
        ''1. Clone the repository'',
        ''2. Install dependencies:'',
        ''   '' @ fence @ ''bash'',
        ''   npm install'',
        ''   # or'',
        ''   yarn install'',
        ''   '' @ fence,
        ''3. Run the project:'',
        ''   '' @ fence @ ''bash'',
        ''   npm start'',
        ''   # or'',
        ''   yarn start'',
        ''   '' @ fence,
        [],
        ''## '' @ emoji 0x93 0x8C @ '' Main Entry Point'',
        mainEntry v,
        [],
        ''## '' @ emoji 0x93 0x9A @ '' Project Structure Explanation'',
        structureText v,
        [],
        ''## '' @ emoji 0x94 0xA7 @ '' Configuration Files'',
        configFiles v,
        [],
        ''## '' @ emoji 0x92 0xA1 @ '' Additional Notes'',
        ''- The project uses a '' @ stackNote v,
        ''- File organization follows '' @ organizationNote v @ '' structure'',
        ''- '' @ languageNote v,
        [],
        ''## '' @ emoji 0xA4 0x9D @ '' Contributing'',
        ''1. Fork the repository'',
        ''2. Create your feature branch'',
        ''3. Commit your changes'',
        ''4. Push to the branch'',
        ''5. Create a new Pull Request'',
        [],
        ''## '' @ emoji 0x93 0x9D @ '' License'',
        ''This project is licensed under the terms specified in the LICENSE file, if present.''])"

definition generateReadme :: "'a FileInfo_scheme list \<Rightarrow> stop + string" where
  "generateReadme files =
     (case buildFileTree files of
        Inl e \<Rightarrow> Inl e
      | Inr tree \<Rightarrow>
          (let stats = analyzeCodebase files;
               frameworks = detectFrameworks files;
               mainFile = findMainFile files
           in case generateTreeMarkdown tree [] of
                Inl e \<Rightarrow> Inl e
              | Inr rendered \<Rightarrow>
                  Inr (template
                         \<lparr>treeText = rendered,
                          fileCount = number_toString (length files),
                          statsText = stats_section stats,
                          technologies = technologies_section frameworks,
                          mainEntry = main_entry_section mainFile,
                          structureText = structure_section tree,
                          configFiles = config_section files,
                          stackNote = stack_note frameworks,
                          organizationNote = organization_note files,
                          languageNote = language_note stats\<rparr>)))"

section \<open>Facts about the string operations\<close>

lemma split_nonempty: "split c s \<noteq> []"
  by (induction s) (auto split: list.splits)

lemma split_no_sep: "l \<in> set (split c s) \<Longrightarrow> c \<notin> set l"
proof (induction s arbitrary: l)
  case Nil
  then show ?case by simp
next
  case (Cons a s)
  then show ?case
    by (cases "split c s") (auto simp: split_nonempty split: if_splits)
qed

lemma split_append_sep:
  "c \<notin> set x \<Longrightarrow> split c (x @ c # rest) = x # split c rest"
  by (induction x) auto

lemma split_no_occurrence: "c \<notin> set x \<Longrightarrow> split c x = [x]"
  by (induction x) auto

lemma split_join:
  "ls \<noteq> [] \<Longrightarrow> \<forall>l\<in>set ls. c \<notin> set l \<Longrightarrow> split c (join [c] ls) = ls"
proof (induction ls rule: induct_list012)
  case 1
  then show ?case by simp
next
  case (2 x)
  then show ?case by (simp add: split_no_occurrence)
next
  case (3 x y zs)
  then show ?case by (simp add: split_append_sep)
qed

lemma set_trim: "set (trim s) \<subseteq> set s"
  unfolding trim_def
  by (metis set_dropWhileD set_rev subsetI)

lemma trim_prefix: "\<exists>zs. dropWhile isWhiteSpace s = trim s @ zs"
proof -
  let ?ys = "dropWhile isWhiteSpace s"
  have "takeWhile isWhiteSpace (rev ?ys) @ dropWhile isWhiteSpace (rev ?ys) = rev ?ys"
    by simp
  then have "?ys = rev (dropWhile isWhiteSpace (rev ?ys)) @ rev (takeWhile isWhiteSpace (rev ?ys))"
    by (metis rev_append rev_rev_ident)
  then show ?thesis unfolding trim_def by blast
qed

lemma trim_hd: "trim s \<noteq> [] \<Longrightarrow> \<not> isWhiteSpace (hd (trim s))"
proof -
  assume ne: "trim s \<noteq> []"
  obtain zs where z: "dropWhile isWhiteSpace s = trim s @ zs" using trim_prefix by blast
  with ne have "dropWhile isWhiteSpace s \<noteq> []" by simp
  then have "\<not> isWhiteSpace (hd (dropWhile isWhiteSpace s))" by (rule hd_dropWhile)
  with z ne show ?thesis by simp
qed

lemma trim_last: "trim s \<noteq> [] \<Longrightarrow> \<not> isWhiteSpace (last (trim s))"
proof -
  assume ne: "trim s \<noteq> []"
  let ?d = "dropWhile isWhiteSpace (rev (dropWhile isWhiteSpace s))"
  from ne have "?d \<noteq> []" by (simp add: trim_def)
  then have "\<not> isWhiteSpace (hd ?d)" by (rule hd_dropWhile)
  moreover have "last (trim s) = hd ?d" using \<open>?d \<noteq> []\<close> by (simp add: trim_def last_rev)
  ultimately show ?thesis by simp
qed

lemma trim_fixed:
  assumes "l \<noteq> []" "\<not> isWhiteSpace (hd l)" "\<not> isWhiteSpace (last l)"
  shows "trim (replicate k CHR '' '' @ l) = l"
proof -
  have sp: "isWhiteSpace CHR '' ''" by (simp add: isWhiteSpace_def)
  have "dropWhile isWhiteSpace (replicate k CHR '' '' @ l) = l"
    using assms sp by (induction k) (auto simp: dropWhile_eq_self_iff)
  moreover have "dropWhile isWhiteSpace (rev l) = rev l"
    using assms by (simp add: dropWhile_eq_self_iff hd_rev)
  ultimately show ?thesis by (simp add: trim_def)
qed

lemma trim_indent_trim:
  "trim s \<noteq> [] \<Longrightarrow> trim (replicate k CHR '' '' @ trim s) = trim s"
  by (rule trim_fixed) (auto simp: trim_hd trim_last)


lemma map_throwing_guarded:
  "(\<And>x. f x = (if P x then Inr (g x) else Inl RangeError)) \<Longrightarrow>
     map_throwing f xs = (if \<forall>x\<in>set xs. P x then Inr (map g xs) else Inl RangeError)"
  by (induction xs) simp_all

lemma match_all_count: "length (or_empty (match_all c l)) = count_list l c"
proof -
  have "filter (\<lambda>x. x = c) l = filter ((=) c) l"
    by (rule filter_cong) auto
  then show ?thesis
    by (simp add: match_all_def or_empty_def Let_def count_list_eq_length_filter)
qed

lemma concat_replicate_spaces:
  "concat (replicate k (replicate w CHR '' '')) = replicate (w * k) CHR '' ''"
  by (induction k) (simp_all add: replicate_add)

lemma repeat_spaces:
  "0 \<le> n \<Longrightarrow>
     repeat maxLength (replicate w CHR '' '') n =
       (if maxLength < w * nat n then Inl RangeError else Inr (replicate (w * nat n) CHR '' ''))"
  by (simp add: repeat_def concat_replicate_spaces)

lemma two_spaces: "''  '' = replicate 2 CHR '' ''"
  by (simp add: numeral_2_eq_2)

lemma four_spaces: "''    '' = replicate 4 CHR '' ''"
  by (simp add: numeral_eq_Suc)

lemma length_indent_line:
  "length (indent_line w level l) = w * nat (max 0 (level l)) + length l"
  by (simp add: indent_line_def)

lemma indent_then_plus:
  "0 \<le> n \<Longrightarrow>
     (case repeat maxLength (replicate w CHR '' '') n of
        Inl e \<Rightarrow> Inl e
      | Inr indent \<Rightarrow> string_plus maxLength indent l) =
     (if w * nat n + length l \<le> maxLength then Inr (replicate (w * nat n) CHR '' '' @ l)
      else Inl RangeError)"
  by (simp add: repeat_spaces string_plus_def)

lemma formatJavaScript_line_eq:
  "formatJavaScript_line maxLength l =
     (if length (indent_line 2 brace_level l) \<le> maxLength then Inr (indent_line 2 brace_level l)
      else Inl RangeError)"
  unfolding formatJavaScript_line_def Let_def two_spaces
  by (simp add: indent_then_plus match_all_count indent_line_def brace_level_def)

lemma formatJava_line_eq:
  "formatJava_line maxLength l =
     (if length (indent_line 4 brace_level l) \<le> maxLength then Inr (indent_line 4 brace_level l)
      else Inl RangeError)"
  unfolding formatJava_line_def Let_def four_spaces
  by (simp add: indent_then_plus match_all_count indent_line_def brace_level_def)

lemma formatC_line_eq:
  "formatC_line maxLength l =
     (if length (indent_line 4 brace_level l) \<le> maxLength then Inr (indent_line 4 brace_level l)
      else Inl RangeError)"
  unfolding formatC_line_def Let_def four_spaces
  by (simp add: indent_then_plus match_all_count indent_line_def brace_level_def)

lemma formatPython_line_eq:
  "formatPython_line maxLength l =
     (if length (indent_line 4 colon_level l) \<le> maxLength then Inr (indent_line 4 colon_level l)
      else Inl RangeError)"
  unfolding formatPython_line_def Let_def four_spaces
  by (simp add: indent_then_plus match_all_count indent_line_def colon_level_def)

lemma length_le_join: "l \<in> set ls \<Longrightarrow> length l \<le> length (join sep ls)"
  by (induction ls rule: induct_list012) auto

text \<open>
  The chain of a routine throws exactly when the text of the rule is longer than the
  engine allows: a line that is too long makes the whole text too long.
\<close>

lemma chain_eq:
  assumes line: "\<And>l. fline l =
       (if length (indent_line w level l) \<le> maxLength then Inr (indent_line w level l)
        else Inl RangeError)"
  shows "(case map_throwing fline
                 (filter (\<lambda>line. length line > 0) (map trim (split CHR 0x0A code))) of
            Inl e \<Rightarrow> Inl e
          | Inr lines \<Rightarrow> join_throwing maxLength [CHR 0x0A] lines) =
         (if length (reindent w level code) \<le> maxLength then Inr (reindent w level code)
          else Inl RangeError)"
proof -
  have lines: "filter (\<lambda>line. length line > 0) (map trim (split CHR 0x0A code)) = surviving_lines code"
    by (simp add: surviving_lines_def)
  have m: "map_throwing fline (surviving_lines code) =
      (if \<forall>l\<in>set (surviving_lines code). length (indent_line w level l) \<le> maxLength
       then Inr (map (indent_line w level) (surviving_lines code)) else Inl RangeError)"
    by (rule map_throwing_guarded) (rule line)
  show ?thesis
  proof (cases "length (reindent w level code) \<le> maxLength")
    case True
    have "\<forall>l\<in>set (surviving_lines code). length (indent_line w level l) \<le> maxLength"
    proof
      fix l assume "l \<in> set (surviving_lines code)"
      then have "indent_line w level l \<in> set (map (indent_line w level) (surviving_lines code))"
        by simp
      then have "length (indent_line w level l) \<le> length (reindent w level code)"
        unfolding reindent_def by (rule length_le_join)
      with True show "length (indent_line w level l) \<le> maxLength" by simp
    qed
    with True show ?thesis
      unfolding lines m by (simp add: join_throwing_def reindent_def)
  next
    case False
    then show ?thesis
      unfolding lines m by (simp add: join_throwing_def reindent_def)
  qed
qed

lemma formatJavaScript_try_eq:
  "formatJavaScript_try maxLength s =
     (if length (reindent 2 brace_level s) \<le> maxLength then Inr (reindent 2 brace_level s)
      else Inl RangeError)"
  unfolding formatJavaScript_try_def by (rule chain_eq) (rule formatJavaScript_line_eq)

lemma formatJava_try_eq:
  "formatJava_try maxLength s =
     (if length (reindent 4 brace_level s) \<le> maxLength then Inr (reindent 4 brace_level s)
      else Inl RangeError)"
  unfolding formatJava_try_def by (rule chain_eq) (rule formatJava_line_eq)

lemma formatC_try_eq:
  "formatC_try maxLength s =
     (if length (reindent 4 brace_level s) \<le> maxLength then Inr (reindent 4 brace_level s)
      else Inl RangeError)"
  unfolding formatC_try_def by (rule chain_eq) (rule formatC_line_eq)

lemma formatPython_try_eq:
  "formatPython_try maxLength s =
     (if length (reindent 4 colon_level s) \<le> maxLength then Inr (reindent 4 colon_level s)
      else Inl RangeError)"
  unfolding formatPython_try_def by (rule chain_eq) (rule formatPython_line_eq)

lemma formatJavaScript_eq:
  "formatJavaScript maxLength s =
     (if length (reindent 2 brace_level s) \<le> maxLength then reindent 2 brace_level s else s)"
  by (simp add: formatJavaScript_def formatJavaScript_try_eq)

lemma formatJava_eq:
  "formatJava maxLength s =
     (if length (reindent 4 brace_level s) \<le> maxLength then reindent 4 brace_level s else s)"
  by (simp add: formatJava_def formatJava_try_eq)

lemma formatC_eq:
  "formatC maxLength s =
     (if length (reindent 4 brace_level s) \<le> maxLength then reindent 4 brace_level s else s)"
  by (simp add: formatC_def formatC_try_eq)

lemma formatPython_eq:
  "formatPython maxLength s =
     (if length (reindent 4 colon_level s) \<le> maxLength then reindent 4 colon_level s else s)"
  by (simp add: formatPython_def formatPython_try_eq)

lemma surviving_line_props:
  assumes "l \<in> set (surviving_lines s)"
  shows "l \<noteq> []" and "CHR 0x0A \<notin> set l" and "\<not> isWhiteSpace (hd l)"
    and "trim (replicate k CHR '' '' @ l) = l"
proof -
  from assms obtain x where x: "x \<in> set (split CHR 0x0A s)" and l: "l = trim x" and ne: "l \<noteq> []"
    by (auto simp: surviving_lines_def)
  show "l \<noteq> []" by (rule ne)
  have "CHR 0x0A \<notin> set x" using x by (rule split_no_sep)
  then show "CHR 0x0A \<notin> set l" using set_trim [of x] l by auto
  show "\<not> isWhiteSpace (hd l)" using ne unfolding l by (rule trim_hd)
  show "trim (replicate k CHR '' '' @ l) = l" using ne unfolding l by (rule trim_indent_trim)
qed

lemma surviving_lines_empty: "surviving_lines [] = []"
  by (simp add: surviving_lines_def trim_def)

lemma split_reindent:
  assumes "surviving_lines s \<noteq> []"
  shows "split CHR 0x0A (reindent w level s) = map (indent_line w level) (surviving_lines s)"
proof -
  have "\<forall>l\<in>set (map (indent_line w level) (surviving_lines s)). CHR 0x0A \<notin> set l"
    by (auto simp: indent_line_def dest: surviving_line_props(2))
  then show ?thesis unfolding reindent_def using assms by (intro split_join) simp_all
qed

lemma surviving_lines_reindent: "surviving_lines (reindent w level s) = surviving_lines s"
proof (cases "surviving_lines s = []")
  case True
  then show ?thesis by (simp add: reindent_def surviving_lines_empty)
next
  case False
  have "map trim (map (indent_line w level) (surviving_lines s)) = surviving_lines s"
    by (simp add: map_idI indent_line_def surviving_line_props(4))
  moreover have "filter (\<lambda>l. l \<noteq> []) (surviving_lines s) = surviving_lines s"
    by (simp add: surviving_lines_def)
  ultimately show ?thesis
    using split_reindent [OF False, of w level]
    by (simp add: surviving_lines_def [of "reindent w level s"])
qed

lemma reindent_idempotent: "reindent w level (reindent w level s) = reindent w level s"
  by (simp add: reindent_def [of w level "reindent w level s"] surviving_lines_reindent)
     (simp add: reindent_def)

lemma join_nonempty: "ls \<noteq> [] \<Longrightarrow> \<forall>l\<in>set ls. l \<noteq> [] \<Longrightarrow> join sep ls \<noteq> []"
  by (induction ls rule: induct_list012) simp_all

lemma reindent_empty_iff: "reindent w level s = [] \<longleftrightarrow> surviving_lines s = []"
proof
  assume "reindent w level s = []"
  show "surviving_lines s = []"
  proof (rule ccontr)
    assume ne: "surviving_lines s \<noteq> []"
    have "join [CHR 0x0A] (map (indent_line w level) (surviving_lines s)) \<noteq> []"
      using ne by (intro join_nonempty) (auto simp: indent_line_def dest: surviving_line_props(1))
    with \<open>reindent w level s = []\<close> show False by (simp add: reindent_def)
  qed
next
  assume "surviving_lines s = []"
  then show "reindent w level s = []" by (simp add: reindent_def)
qed

lemma reindent_line_visible:
  assumes "reindent w level s \<noteq> []" and "l \<in> set (split CHR 0x0A (reindent w level s))"
  shows "\<exists>c\<in>set l. \<not> isWhiteSpace c"
proof -
  from assms(1) have ne: "surviving_lines s \<noteq> []" by (simp add: reindent_empty_iff)
  with assms(2) obtain x where x: "x \<in> set (surviving_lines s)" and l: "l = indent_line w level x"
    by (auto simp: split_reindent)
  have "hd x \<in> set l" using surviving_line_props(1) [OF x] by (simp add: l indent_line_def)
  then show ?thesis using surviving_line_props(3) [OF x] by blast
qed

section \<open>Facts about getFormatter\<close>

lemma length_split: "length (split c s) = Suc (count_list s c)"
  by (induction s) (auto split: list.splits)

lemma last_split_append:
  "last (split c (b @ c # x)) = last (split c x)"
proof (induction b)
  case Nil
  then show ?case by (simp add: split_nonempty)
next
  case (Cons a b)
  have "length (split c (b @ c # x)) \<ge> 2" by (simp add: length_split)
  then obtain l m ls where "split c (b @ c # x) = l # m # ls"
    by (cases "split c (b @ c # x)"; cases "tl (split c (b @ c # x))") auto
  with Cons show ?case by auto
qed

lemma extension_suffix:
  "CHR ''.'' \<notin> set x \<Longrightarrow> x \<noteq> [] \<Longrightarrow> extension (b @ CHR ''.'' # x) = toLowerCase x"
  by (simp add: extension_def pop_def split_nonempty last_split_append split_no_occurrence
      or_string_def toLowerCase_def)

lemma getFormatter_own:
  "map_of formatters (extension f) = Some r \<Longrightarrow> getFormatter f = r"
  by (simp add: getFormatter_def get_property_def)

lemma getFormatter_JavaScript:
  "extension f \<in> set [''js'', ''jsx'', ''ts'', ''tsx''] \<Longrightarrow> getFormatter f = FormatJavaScript"
  by (rule getFormatter_own) (auto simp: formatters_def)

lemma getFormatter_Java:
  "extension f = ''java'' \<Longrightarrow> getFormatter f = FormatJava"
  by (rule getFormatter_own) (auto simp: formatters_def)

lemma getFormatter_C:
  "extension f \<in> set [''c'', ''cpp'', ''h'', ''hpp''] \<Longrightarrow> getFormatter f = FormatC"
  by (rule getFormatter_own) (auto simp: formatters_def)

lemma getFormatter_Python:
  "extension f = ''py'' \<Longrightarrow> getFormatter f = FormatPython"
  by (rule getFormatter_own) (auto simp: formatters_def)

lemma getFormatter_Identity:
  assumes "extension f \<notin> set [''js'', ''jsx'', ''ts'', ''tsx'', ''java'', ''py'', ''c'', ''cpp'', ''h'', ''hpp'',
             ''constructor'', ''__proto__'']"
  shows "getFormatter f = Identity"
  using assms by (simp add: getFormatter_def get_property_def formatters_def inherited_def)

lemma count_list_indent:
  "c \<noteq> CHR '' '' \<Longrightarrow> count_list (replicate k CHR '' '' @ l) c = count_list l c"
  by (induction k) simp_all

section \<open>The claims about the formatting routines\<close>

lemma count_list_replicate_same: "count_list (replicate n c) c = n"
  by (induction n) simp_all

lemma count_list_replicate_other: "c \<noteq> d \<Longrightarrow> count_list (replicate n c) d = 0"
  by (induction n) simp_all

lemma trim_blank: "trim ''  '' = []"
  by (simp add: trim_def isWhiteSpace_def)

lemma trim_replicate: "0 < n \<Longrightarrow> \<not> isWhiteSpace c \<Longrightarrow> trim (replicate n c) = replicate n c"
  using trim_fixed [of "replicate n c" 0] by (simp add: last_replicate)

text \<open>
  An input of \<open>n\<close> blocks, each a line of \<open>m\<close> times the character \<open>c\<close> followed by a
  line of two spaces: its lines, its surviving lines, and the length of a text joined
  from \<open>n\<close> equal lines.
\<close>

lemma split_blocks:
  "c \<noteq> CHR 0x0A \<Longrightarrow>
     split CHR 0x0A (concat (replicate n (replicate m c @ ''\<newline>  \<newline>'')))
       = concat (replicate n [replicate m c, ''  '']) @ [[]]"
proof (induction n)
  case 0
  then show ?case by simp
next
  case (Suc n)
  have "split CHR 0x0A (replicate m c @ CHR 0x0A # (''  '' @ CHR 0x0A # rest))
          = replicate m c # ''  '' # split CHR 0x0A rest" for rest
    using Suc.prems by (simp add: split_append_sep)
  with Suc show ?case by simp
qed

lemma surviving_lines_blocks:
  assumes "0 < m" "\<not> isWhiteSpace c" "c \<noteq> CHR 0x0A"
  shows "surviving_lines (concat (replicate n (replicate m c @ ''\<newline>  \<newline>'')))
           = replicate n (replicate m c)"
proof -
  have "filter (\<lambda>l. l \<noteq> []) (map trim (concat (replicate n [replicate m c, ''  '']) @ [[]]))
          = replicate n (replicate m c)"
    using assms by (induction n) (simp_all add: trim_blank trim_replicate trim_def isWhiteSpace_def)
  then show ?thesis
    using assms(3) by (simp add: surviving_lines_def split_blocks)
qed

lemma length_join_replicate:
  "length (join [sep] (replicate (Suc n) x)) = Suc n * length x + n"
  by (induction n) simp_all

lemma blank_line_in_blocks:
  "c \<noteq> CHR 0x0A \<Longrightarrow>
     ''  '' \<in> set (split CHR 0x0A (concat (replicate (Suc n) (replicate m c @ ''\<newline>  \<newline>''))))"
  unfolding split_blocks by simp

lemma length_blocks:
  "length (concat (replicate n (replicate m c @ ''\<newline>  \<newline>''))) = n * (m + 4)"
  by (induction n) simp_all

lemma length_reindent_blocks:
  assumes "0 < m" "\<not> isWhiteSpace c" "c \<noteq> CHR 0x0A"
  shows "length (reindent w level (concat (replicate (Suc n) (replicate m c @ ''\<newline>  \<newline>''))))
           = Suc n * (w * nat (max 0 (level (replicate m c))) + m) + n"
  by (simp add: reindent_def surviving_lines_blocks [OF assms] length_indent_line
      length_join_replicate del: replicate.simps)

text \<open>
  Claim C1 says that for every input string the brace-depth routines return exactly the
  text of the rule. When that text is longer than the engine allows, building it throws,
  and the \<open>catch\<close> returns the input as it is. With the limit of V8: 180000 lines of
  1000 opening braces, each followed by a line of two spaces, are an input of 180720000
  characters; the text of the rule would have 540179999; the input comes back unchanged,
  its lines of spaces included.
\<close>

theorem C1_over_long_counterexample:
  "length (concat (replicate 180000 (replicate 1000 CHR ''{'' @ ''\<newline>  \<newline>''))) = 180720000
   \<and> length (reindent 2 brace_level
               (concat (replicate 180000 (replicate 1000 CHR ''{'' @ ''\<newline>  \<newline>''))))
       = 540179999
   \<and> formatJavaScript 536870888
         (concat (replicate 180000 (replicate 1000 CHR ''{'' @ ''\<newline>  \<newline>'')))
       = concat (replicate 180000 (replicate 1000 CHR ''{'' @ ''\<newline>  \<newline>''))
   \<and> formatJavaScript 536870888
         (concat (replicate 180000 (replicate 1000 CHR ''{'' @ ''\<newline>  \<newline>'')))
       \<noteq> reindent 2 brace_level
           (concat (replicate 180000 (replicate 1000 CHR ''{'' @ ''\<newline>  \<newline>'')))
   \<and> ''  '' \<in> set (split CHR 0x0A
         (formatJavaScript 536870888
            (concat (replicate 180000 (replicate 1000 CHR ''{'' @ ''\<newline>  \<newline>'')))))"
proof -
  let ?s = "concat (replicate 180000 (replicate 1000 CHR ''{'' @ ''\<newline>  \<newline>''))"
  have n: "(180000::nat) = Suc 179999" by simp
  have ws: "\<not> isWhiteSpace CHR ''{''" by (simp add: isWhiteSpace_def)
  have lvl: "brace_level (replicate 1000 CHR ''{'') = 1000"
    by (simp add: brace_level_def count_list_replicate_same count_list_replicate_other)
  have len_in: "length ?s = 180720000" by (simp add: length_blocks)
  have len: "length (reindent 2 brace_level ?s) = 540179999"
    unfolding n using ws by (subst length_reindent_blocks) (simp_all add: lvl)
  have f: "formatJavaScript 536870888 ?s = ?s"
    unfolding formatJavaScript_eq len by simp
  have ne: "?s \<noteq> reindent 2 brace_level ?s"
  proof
    assume "?s = reindent 2 brace_level ?s"
    then have "length ?s = length (reindent 2 brace_level ?s)" by simp
    then show False unfolding len len_in by simp
  qed
  have b: "''  '' \<in> set (split CHR 0x0A ?s)"
    unfolding n by (rule blank_line_in_blocks) simp
  show ?thesis unfolding f using len_in len ne b by simp
qed

text \<open>
  Claim C1 as amended. For every input string, \<open>formatJavaScript\<close> (chosen for js, jsx,
  ts, tsx; indent unit of 2 spaces) and \<open>formatJava\<close> and \<open>formatC\<close> (chosen for java, c,
  cpp, h, hpp; indent unit of 4 spaces) return exactly the text of the rule whenever that
  text is no longer than the engine's maximal string length: the input split on newline,
  every line trimmed, the empty lines discarded, each surviving line prefixed with the
  indent unit repeated \<open>max(0, count of { - count of })\<close> times, and the lines joined with
  newlines. Then every line of a non-empty output has a character that is not whitespace.
  When the text of the rule is longer than that, they return the input unchanged.
\<close>

theorem C1_brace_depth_formatting:
  "formatJavaScript maxLength s =
     (if length (reindent 2 brace_level s) \<le> maxLength then reindent 2 brace_level s else s)
   \<and> formatJava maxLength s =
     (if length (reindent 4 brace_level s) \<le> maxLength then reindent 4 brace_level s else s)
   \<and> formatC maxLength s =
     (if length (reindent 4 brace_level s) \<le> maxLength then reindent 4 brace_level s else s)
   \<and> (extension f \<in> set [''js'', ''jsx'', ''ts'', ''tsx'']
        \<longrightarrow> call_formatter maxLength (getFormatter f) s
            = Inr (Primitive (if length (reindent 2 brace_level s) \<le> maxLength
                              then reindent 2 brace_level s else s)))
   \<and> (extension f \<in> set [''java'', ''c'', ''cpp'', ''h'', ''hpp'']
        \<longrightarrow> call_formatter maxLength (getFormatter f) s
            = Inr (Primitive (if length (reindent 4 brace_level s) \<le> maxLength
                              then reindent 4 brace_level s else s)))
   \<and> (length (reindent 2 brace_level s) \<le> maxLength \<longrightarrow>
        (\<forall>l\<in>set (split CHR 0x0A (formatJavaScript maxLength s)).
           formatJavaScript maxLength s \<noteq> [] \<longrightarrow> (\<exists>c\<in>set l. \<not> isWhiteSpace c)))
   \<and> (length (reindent 4 brace_level s) \<le> maxLength \<longrightarrow>
        (\<forall>l\<in>set (split CHR 0x0A (formatJava maxLength s)).
           formatJava maxLength s \<noteq> [] \<longrightarrow> (\<exists>c\<in>set l. \<not> isWhiteSpace c)))
   \<and> (length (reindent 4 brace_level s) \<le> maxLength \<longrightarrow>
        (\<forall>l\<in>set (split CHR 0x0A (formatC maxLength s)).
           formatC maxLength s \<noteq> [] \<longrightarrow> (\<exists>c\<in>set l. \<not> isWhiteSpace c)))"
proof -
  have js: "getFormatter f = FormatJavaScript"
    if "extension f \<in> set [''js'', ''jsx'', ''ts'', ''tsx'']"
    using that by (rule getFormatter_JavaScript)
  have jc: "getFormatter f = FormatJava \<or> getFormatter f = FormatC"
    if "extension f \<in> set [''java'', ''c'', ''cpp'', ''h'', ''hpp'']"
  proof -
    from that consider "extension f = ''java''" | "extension f \<in> set [''c'', ''cpp'', ''h'', ''hpp'']"
      by auto
    then show ?thesis
      by cases (simp_all add: getFormatter_Java getFormatter_C del: set_simps)
  qed
  have visible: "\<exists>c\<in>set l. \<not> isWhiteSpace c"
    if "l \<in> set (split CHR 0x0A (reindent w brace_level s))" "reindent w brace_level s \<noteq> []"
    for w l
    using that(2) that(1) by (rule reindent_line_visible)
  show ?thesis
    using js jc visible
    by (auto simp: formatJavaScript_eq formatJava_eq formatC_eq simp del: set_simps)
qed

lemma example_brace_2:
  "reindent 2 brace_level ''if (x) {  \<newline>   y;\<newline>\<newline>  }'' = ''  if (x) {\<newline>y;\<newline>}''"
  by code_simp

lemma example_brace_4:
  "reindent 4 brace_level ''if (x) {  \<newline>   y;\<newline>\<newline>  }'' = ''    if (x) {\<newline>y;\<newline>}''"
  by code_simp

lemma example_extensions:
  "extension ''App.tsx'' = ''tsx''" "extension ''Main.JAVA'' = ''java''"
  "extension ''tool.py'' = ''py''"
  by code_simp+

theorem C1_brace_depth_formatting_witness:
  "formatJavaScript 536870888 ''if (x) {  \<newline>   y;\<newline>\<newline>  }'' = ''  if (x) {\<newline>y;\<newline>}''
   \<and> formatJava 536870888 ''if (x) {  \<newline>   y;\<newline>\<newline>  }'' = ''    if (x) {\<newline>y;\<newline>}''
   \<and> formatC 536870888 ''if (x) {  \<newline>   y;\<newline>\<newline>  }'' = ''    if (x) {\<newline>y;\<newline>}''
   \<and> call_formatter 536870888 (getFormatter ''App.tsx'') ''if (x) {  \<newline>   y;\<newline>\<newline>  }''
       = Inr (Primitive ''  if (x) {\<newline>y;\<newline>}'')
   \<and> call_formatter 536870888 (getFormatter ''Main.JAVA'') ''if (x) {  \<newline>   y;\<newline>\<newline>  }''
       = Inr (Primitive ''    if (x) {\<newline>y;\<newline>}'')
   \<and> split CHR 0x0A ''  if (x) {\<newline>y;\<newline>}'' = [''  if (x) {'', ''y;'', ''}'']
   \<and> \<not> isWhiteSpace CHR ''i'' \<and> \<not> isWhiteSpace CHR ''y'' \<and> \<not> isWhiteSpace CHR ''}''"
  using C1_brace_depth_formatting [of 536870888 "''if (x) {  \<newline>   y;\<newline>\<newline>  }''" "''App.tsx''"]
    C1_brace_depth_formatting [of 536870888 "''if (x) {  \<newline>   y;\<newline>\<newline>  }''" "''Main.JAVA''"]
  by (simp add: example_brace_2 example_brace_4 example_extensions isWhiteSpace_def)

lemma indent_line_colons:
  "indent_line 4 colon_level l = replicate (4 * count_list l CHR '':'') CHR '' '' @ l"
  by (simp add: indent_line_def colon_level_def)

text \<open>
  Claim C2 says that for every input string \<open>formatPython\<close> returns the trimmed,
  reindented lines. Beyond the maximal string length it returns the input unchanged, as
  the brace-depth routines do. With the limit of V8: 180000 lines of 600 colons, each
  followed by a line of two spaces, are an input of 108720000 characters; the text of the
  rule would have 540179999; the input comes back without any indent.
\<close>

theorem C2_over_long_counterexample:
  "length (concat (replicate 180000 (replicate 600 CHR '':'' @ ''\<newline>  \<newline>''))) = 108720000
   \<and> length (reindent 4 colon_level
               (concat (replicate 180000 (replicate 600 CHR '':'' @ ''\<newline>  \<newline>''))))
       = 540179999
   \<and> formatPython 536870888
         (concat (replicate 180000 (replicate 600 CHR '':'' @ ''\<newline>  \<newline>'')))
       = concat (replicate 180000 (replicate 600 CHR '':'' @ ''\<newline>  \<newline>''))
   \<and> formatPython 536870888
         (concat (replicate 180000 (replicate 600 CHR '':'' @ ''\<newline>  \<newline>'')))
       \<noteq> reindent 4 colon_level
           (concat (replicate 180000 (replicate 600 CHR '':'' @ ''\<newline>  \<newline>'')))"
proof -
  let ?s = "concat (replicate 180000 (replicate 600 CHR '':'' @ ''\<newline>  \<newline>''))"
  have n: "(180000::nat) = Suc 179999" by simp
  have ws: "\<not> isWhiteSpace CHR '':''" by (simp add: isWhiteSpace_def)
  have lvl: "colon_level (replicate 600 CHR '':'') = 600"
    by (simp add: colon_level_def count_list_replicate_same)
  have len_in: "length ?s = 108720000" by (simp add: length_blocks)
  have len: "length (reindent 4 colon_level ?s) = 540179999"
    unfolding n using ws by (subst length_reindent_blocks) (simp_all add: lvl)
  have f: "formatPython 536870888 ?s = ?s"
    unfolding formatPython_eq len by simp
  have ne: "?s \<noteq> reindent 4 colon_level ?s"
  proof
    assume "?s = reindent 4 colon_level ?s"
    then have "length ?s = length (reindent 4 colon_level ?s)" by simp
    then show False unfolding len len_in by simp
  qed
  show ?thesis unfolding f using len_in len ne by simp
qed

text \<open>
  Claim C2 as amended. For every input string, \<open>formatPython\<close> (chosen for the extension
  py) trims each line, drops the lines that became empty, and prefixes each surviving line
  with 4 spaces for every \<open>:\<close> in it, whenever the resulting text is no longer than the
  engine's maximal string length; a surviving line with exactly two colons gets 8 spaces,
  as \<open>case 1: x: y\<close> does. When the resulting text is longer than that, \<open>formatPython\<close>
  returns the input unchanged.
\<close>

theorem C2_python_formatting:
  "formatPython maxLength s =
     (if length (reindent 4 colon_level s) \<le> maxLength then reindent 4 colon_level s else s)
   \<and> reindent 4 colon_level s
       = join [CHR 0x0A]
           (map (\<lambda>l. replicate (4 * count_list l CHR '':'') CHR '' '' @ l) (surviving_lines s))
   \<and> (extension f = ''py''
        \<longrightarrow> call_formatter maxLength (getFormatter f) s = Inr (Primitive (formatPython maxLength s)))
   \<and> (\<forall>l\<in>set (surviving_lines s).
          count_list l CHR '':'' = 2 \<longrightarrow> indent_line 4 colon_level l = replicate 8 CHR '' '' @ l)
   \<and> (20 \<le> maxLength \<longrightarrow> formatPython maxLength ''case 1: x: y'' = ''        case 1: x: y'')"
proof -
  have c: "reindent 4 colon_level ''case 1: x: y'' = ''        case 1: x: y''"
    by code_simp
  have "formatPython maxLength ''case 1: x: y'' = ''        case 1: x: y''" if "20 \<le> maxLength"
    unfolding formatPython_eq c using that by simp
  moreover have "reindent 4 colon_level s
       = join [CHR 0x0A]
           (map (\<lambda>l. replicate (4 * count_list l CHR '':'') CHR '' '' @ l) (surviving_lines s))"
    unfolding reindent_def using indent_line_colons by presburger
  ultimately show ?thesis
    by (auto simp: formatPython_eq getFormatter_Python indent_line_colons)
qed

lemma example_python:
  "reindent 4 colon_level ''def f(x):\<newline>  return {1: 2, 3: 4}  \<newline> \<newline>pass'' =
     ''    def f(x):\<newline>        return {1: 2, 3: 4}\<newline>pass''"
  "surviving_lines ''def f(x):\<newline>  return {1: 2, 3: 4}  \<newline> \<newline>pass'' =
     [''def f(x):'', ''return {1: 2, 3: 4}'', ''pass'']"
  by code_simp+

theorem C2_python_formatting_witness:
  "call_formatter 536870888 (getFormatter ''tool.py'')
       ''def f(x):\<newline>  return {1: 2, 3: 4}  \<newline> \<newline>pass''
     = Inr (Primitive ''    def f(x):\<newline>        return {1: 2, 3: 4}\<newline>pass'')
   \<and> count_list ''return {1: 2, 3: 4}'' CHR '':'' = 2
   \<and> indent_line 4 colon_level ''return {1: 2, 3: 4}'' = ''        return {1: 2, 3: 4}''
   \<and> formatPython 536870888 ''case 1: x: y'' = ''        case 1: x: y''"
proof -
  let ?s = "''def f(x):\<newline>  return {1: 2, 3: 4}  \<newline> \<newline>pass''"
  note t = C2_python_formatting [of 536870888 ?s "''tool.py''"]
  have a: "call_formatter 536870888 (getFormatter ''tool.py'') ?s
             = Inr (Primitive (formatPython 536870888 ?s))"
    using t by (simp add: example_extensions)
  have b: "formatPython 536870888 ?s = ''    def f(x):\<newline>        return {1: 2, 3: 4}\<newline>pass''"
    using t by (simp add: example_python(1))
  have c: "count_list ''return {1: 2, 3: 4}'' CHR '':'' = 2"
    by simp
  have m: "''return {1: 2, 3: 4}'' \<in> set (surviving_lines ?s)"
    by (simp add: example_python(2))
  have d: "indent_line 4 colon_level ''return {1: 2, 3: 4}''
             = replicate 8 CHR '' '' @ ''return {1: 2, 3: 4}''"
    using t m c by blast
  have e: "replicate 8 CHR '' '' = ''        ''"
    by (simp add: numeral_eq_Suc)
  have g: "formatPython 536870888 ''case 1: x: y'' = ''        case 1: x: y''"
    using t by simp
  show ?thesis using a b c d e g by simp
qed

lemma fallback_idempotent:
  assumes "\<And>s. F s = (if length (reindent w level s) \<le> maxLength then reindent w level s else s)"
  shows "F (F s) = F s" and "surviving_lines (F s) = surviving_lines s"
  by (simp_all add: assms reindent_idempotent surviving_lines_reindent)

text \<open>
  Claim C10. Each of the four routines is idempotent. A second pass finds the same
  surviving lines as the first (the trim removes the indent that the first pass added, and
  no surviving line is empty), and leading spaces change neither the brace level nor the
  colon level of a line.
\<close>

theorem C10_formatting_idempotent:
  "formatJavaScript maxLength (formatJavaScript maxLength s) = formatJavaScript maxLength s
   \<and> formatJava maxLength (formatJava maxLength s) = formatJava maxLength s
   \<and> formatC maxLength (formatC maxLength s) = formatC maxLength s
   \<and> formatPython maxLength (formatPython maxLength s) = formatPython maxLength s
   \<and> surviving_lines (formatJavaScript maxLength s) = surviving_lines s
   \<and> surviving_lines (formatJava maxLength s) = surviving_lines s
   \<and> surviving_lines (formatC maxLength s) = surviving_lines s
   \<and> surviving_lines (formatPython maxLength s) = surviving_lines s
   \<and> brace_level (replicate k CHR '' '' @ l) = brace_level l
   \<and> colon_level (replicate k CHR '' '' @ l) = colon_level l"
  using fallback_idempotent [of "formatJavaScript maxLength", OF formatJavaScript_eq]
    fallback_idempotent [of "formatJava maxLength", OF formatJava_eq]
    fallback_idempotent [of "formatC maxLength", OF formatC_eq]
    fallback_idempotent [of "formatPython maxLength", OF formatPython_eq]
  by (simp add: brace_level_def colon_level_def count_list_indent)

section \<open>The claims about getFormatter\<close>

lemma call_formatter_raises_iff:
  "(\<exists>e. call_formatter maxLength (getFormatter f) code = Inl e) \<longleftrightarrow> getFormatter f = Inherited ObjectPrototype"
proof (cases "getFormatter f")
  case (Inherited b)
  then show ?thesis by (cases b) simp_all
qed simp_all

lemma getFormatter_prototype_iff:
  "getFormatter f = Inherited ObjectPrototype \<longleftrightarrow> extension f = ''__proto__''"
  by (auto simp: getFormatter_def get_property_def formatters_def inherited_def Let_def
      split: option.splits if_splits)

text \<open>
  Claim C3 says that for every filename and every input the routine that \<open>getFormatter\<close>
  selects never raises. The four routines and the identity never do: the call raises
  exactly for the extension \<open>__proto__\<close> (the two lemmas above). For a file named
  \<open>notes.__proto__\<close> the value selected is \<open>Object.prototype\<close>, the call throws a
  TypeError, and \<open>formatCode\<close> passes it on.
\<close>

theorem C3_formatter_raises:
  "getFormatter ''notes.__proto__'' = Inherited ObjectPrototype
   \<and> call_formatter maxLength (getFormatter ''notes.__proto__'') code = Inl TypeError
   \<and> formatCode maxLength \<lparr>file_name = ''notes.__proto__'', file_text = code, file_zip = z\<rparr> = Inl TypeError"
proof -
  have e: "extension ''notes.__proto__'' = ''__proto__''" by code_simp
  then have g: "getFormatter ''notes.__proto__'' = Inherited ObjectPrototype"
    by (simp add: getFormatter_prototype_iff)
  have z: "\<not> endsWith ''notes.__proto__'' ''.zip''" by code_simp
  show ?thesis using g z by (simp add: formatCode_def)
qed

text \<open>
  Claim C8 says that for every filename whose extension is not in the formatter map the
  routine returned is the identity. The extension \<open>constructor\<close> is not a key of the
  map, and the value returned for \<open>notes.constructor\<close> is the function \<open>Object\<close>, which
  wraps the input in a String object.
\<close>

theorem C8_inherited_constructor:
  "extension ''notes.constructor'' = ''constructor''
   \<and> map_of formatters ''constructor'' = None
   \<and> getFormatter ''notes.constructor'' = Inherited ObjectFunction
   \<and> call_formatter maxLength (getFormatter ''notes.constructor'') code = Inr (StringObject code)
   \<and> call_formatter maxLength (getFormatter ''notes.constructor'') code \<noteq> call_formatter maxLength Identity code"
proof -
  have e: "extension ''notes.constructor'' = ''constructor''" by code_simp
  have m: "map_of formatters ''constructor'' = None" by (simp add: formatters_def)
  have g: "getFormatter ''notes.constructor'' = Inherited ObjectFunction"
    by (simp add: getFormatter_def e get_property_def m inherited_def)
  show ?thesis using e m g by simp
qed

text \<open>
  Claim C9 says that an identity-formatting extension such as \<open>.go\<close> returns the input
  with every line trimmed and the empty lines dropped. The code returns the input as it
  is: \<open>main.go\<close> keeps the spaces around \<open>a\<close>.
\<close>

theorem C9_identity_counterexample:
  "call_formatter 536870888 (getFormatter ''main.go'') ''  a  '' = Inr (Primitive ''  a  '')
   \<and> trim_and_drop_blank ''  a  '' = ''a''
   \<and> call_formatter 536870888 (getFormatter ''main.go'') ''  a  ''
       \<noteq> Inr (Primitive (trim_and_drop_blank ''  a  ''))"
proof -
  have g: "getFormatter ''main.go'' = Identity" by code_simp
  have t: "trim_and_drop_blank ''  a  '' = ''a''" by code_simp
  show ?thesis by (simp add: g t)
qed

lemma toLowerCase_go: "toLowerCase ''go'' = ''go''" "toLowerCase ''txt'' = ''txt''"
  by code_simp+

text \<open>
  Claim C9 as amended. For every filename whose extension is neither a key of the
  formatter map nor \<open>constructor\<close> or \<open>__proto__\<close>, such as a name ending in \<open>.go\<close> or
  \<open>.txt\<close>, and every input string, formatting returns the input unchanged: no trimming,
  no removal of blank lines and no reindenting.
\<close>

theorem C9_identity_formatting:
  "(extension f \<notin> set [''js'', ''jsx'', ''ts'', ''tsx'', ''java'', ''py'', ''c'', ''cpp'', ''h'', ''hpp'',
                        ''constructor'', ''__proto__'']
      \<longrightarrow> call_formatter maxLength (getFormatter f) code = Inr (Primitive code))
   \<and> call_formatter maxLength (getFormatter (b @ ''.go'')) code = Inr (Primitive code)
   \<and> call_formatter maxLength (getFormatter (b @ ''.txt'')) code = Inr (Primitive code)"
proof -
  have "extension (b @ ''.go'') = ''go''"
    using extension_suffix [of "''go''" b] by (simp add: toLowerCase_go)
  then have go: "getFormatter (b @ ''.go'') = Identity"
    by (intro getFormatter_Identity) simp
  have "extension (b @ ''.txt'') = ''txt''"
    using extension_suffix [of "''txt''" b] by (simp add: toLowerCase_go)
  then have plain: "getFormatter (b @ ''.txt'') = Identity"
    by (intro getFormatter_Identity) simp
  show ?thesis using go plain by (auto simp: getFormatter_Identity simp del: set_simps)
qed

theorem C9_identity_formatting_witness:
  "extension ''README.md'' = ''md''
   \<and> call_formatter 536870888 (getFormatter ''README.md'') ''  a  \<newline>\<newline>{ b: c'' = Inr (Primitive ''  a  \<newline>\<newline>{ b: c'')"
proof -
  have e: "extension ''README.md'' = ''md''" by code_simp
  show ?thesis
    using C9_identity_formatting [of "''README.md''" 536870888 "''  a  \<newline>\<newline>{ b: c''" "[]"] e by simp
qed

section \<open>The claim about formatCode\<close>

lemma basename_last: "or_string (pop (split c p)) [] = last (split c p)"
  by (simp add: or_string_def pop_def split_nonempty)

lemma formatCode_entries_paths:
  "formatCode_entries maxLength es acc = Inr rs \<Longrightarrow>
     map path rs = map path acc @ map fst (filter (\<lambda>e. \<not> dir (snd e)) es)"
proof (induction es arbitrary: acc)
  case Nil
  then show ?case by simp
next
  case (Cons e es)
  obtain p z where e: "e = (p, z)" by (cases e)
  show ?case
  proof (cases "dir z")
    case True
    with Cons e show ?thesis by simp
  next
    case False
    with Cons.prems e obtain c f where
      "formatCode_entries maxLength es
         (acc @ [\<lparr>name = or_string (pop (split CHR ''/'' p)) [], content = c, path = p, formatted = f\<rparr>])
       = Inr rs"
      by (auto simp: Let_def split: sum.splits)
    from Cons.IH [OF this] show ?thesis using False e by simp
  qed
qed

lemma formatCode_entries_names:
  "formatCode_entries maxLength es acc = Inr rs \<Longrightarrow>
     \<forall>r\<in>set acc. last (split CHR ''/'' (path r)) = name r \<Longrightarrow>
     \<forall>r\<in>set rs. last (split CHR ''/'' (path r)) = name r"
proof (induction es arbitrary: acc)
  case Nil
  then show ?case by simp
next
  case (Cons e es)
  obtain p z where e: "e = (p, z)" by (cases e)
  show ?case
  proof (cases "dir z")
    case True
    with Cons e show ?thesis by simp
  next
    case False
    with Cons.prems(1) e obtain c f where
      step: "formatCode_entries maxLength es
         (acc @ [\<lparr>name = or_string (pop (split CHR ''/'' p)) [], content = c, path = p, formatted = f\<rparr>])
       = Inr rs"
      by (auto simp: Let_def split: sum.splits)
    show ?thesis
      by (rule Cons.IH [OF step]) (use Cons.prems(2) in \<open>auto simp: basename_last\<close>)
  qed
qed

lemma formatCode_zip:
  assumes "formatCode maxLength file = Inr records" and "endsWith (file_name file) ''.zip''"
  shows "\<exists>entries. file_zip file = Inr entries
           \<and> map path records = map fst (filter (\<lambda>e. \<not> dir (snd e)) entries)
           \<and> (\<forall>r\<in>set records. last (split CHR ''/'' (path r)) = name r)"
proof -
  from assms obtain entries where z: "file_zip file = Inr entries"
    and l: "formatCode_entries maxLength entries [] = Inr records"
    by (auto simp: formatCode_def split: sum.splits)
  show ?thesis
    using z formatCode_entries_paths [OF l] formatCode_entries_names [OF l] by simp
qed

lemma formatCode_single:
  assumes "formatCode maxLength file = Inr records" and "\<not> endsWith (file_name file) ''.zip''"
  shows "\<exists>f. records = [\<lparr>name = file_name file, content = file_text file,
                          path = file_name file, formatted = f\<rparr>]"
  using assms by (auto simp: formatCode_def Let_def split: sum.splits)

lemma example_zip_names:
  "endsWith ''project.zip'' ''.zip''"
  "or_string (pop (split CHR ''/'' ''src/a.py'')) [] = ''a.py''"
  "or_string (pop (split CHR ''/'' ''src/b.py'')) [] = ''b.py''"
  "or_string (pop (split CHR ''/'' ''README.md'')) [] = ''README.md''"
  "getFormatter ''a.py'' = FormatPython"
  "getFormatter ''b.py'' = FormatPython"
  "getFormatter ''README.md'' = Identity"
  by code_simp+

lemma formatCode_example:
  "formatCode maxLength \<lparr>file_name = ''project.zip'', file_text = t,
               file_zip = Inr [(''src/a.py'', \<lparr>dir = False, async_string = Inr a\<rparr>),
                               (''src/b.py'', \<lparr>dir = False, async_string = Inr b\<rparr>),
                               (''README.md'', \<lparr>dir = False, async_string = Inr c\<rparr>)]\<rparr>
   = Inr [\<lparr>name = ''a.py'', content = a, path = ''src/a.py'', formatted = Primitive (formatPython maxLength a)\<rparr>,
          \<lparr>name = ''b.py'', content = b, path = ''src/b.py'', formatted = Primitive (formatPython maxLength b)\<rparr>,
          \<lparr>name = ''README.md'', content = c, path = ''README.md'', formatted = Primitive c\<rparr>]"
  by (simp add: formatCode_def Let_def or_string_def pop_def example_zip_names(1,5,6,7))

text \<open>
  Claim C4 says that every record returned by \<open>formatCode\<close> has a non-empty path. The
  path of a record is the path of its archive entry, copied as it is: an archive with a
  file entry of empty name gives a record with an empty path.
\<close>

theorem C4_empty_path_counterexample:
  "formatCode 536870888 \<lparr>file_name = ''upload.zip'', file_text = [],
               file_zip = Inr [([], \<lparr>dir = False, async_string = Inr ''x''\<rparr>)]\<rparr>
   = Inr [\<lparr>name = [], content = ''x'', path = [], formatted = Primitive ''x''\<rparr>]"
proof -
  have e: "endsWith ''upload.zip'' ''.zip''" "getFormatter [] = Identity"
    by code_simp+
  show ?thesis
    by (simp add: formatCode_def Let_def or_string_def pop_def e)
qed

text \<open>
  Claim C4 as amended. When \<open>formatCode\<close> returns for a ZIP upload, it has one record
  for each entry that \<open>Object.entries(zipContent.files)\<close> lists and that is no directory
  entry, in the order of that listing, and no record for a directory entry; the path of a
  record is the key of its entry, so it is non-empty when the key of every listed file
  entry is; and the name of a record is the final \<open>/\<close>-separated segment of its path.
  A ZIP whose listing is exactly the file entries \<open>src/a.py\<close>, \<open>src/b.py\<close> and
  \<open>README.md\<close> yields exactly 3 records, none with an empty path. When \<open>formatCode\<close>
  returns for a single upload that is not a ZIP, the one record has its path equal to its
  name, the name of the upload.
\<close>

theorem C4_file_records:
  "(formatCode maxLength file = Inr records \<and> endsWith (file_name file) ''.zip'' \<longrightarrow>
      (\<exists>entries. file_zip file = Inr entries
         \<and> map path records = map fst (filter (\<lambda>e. \<not> dir (snd e)) entries)
         \<and> length records = length (filter (\<lambda>e. \<not> dir (snd e)) entries)
         \<and> (\<forall>r\<in>set records. last (split CHR ''/'' (path r)) = name r)
         \<and> ((\<forall>e\<in>set entries. \<not> dir (snd e) \<longrightarrow> fst e \<noteq> [])
              \<longrightarrow> (\<forall>r\<in>set records. path r \<noteq> []))))
   \<and> (formatCode maxLength file = Inr records \<and> \<not> endsWith (file_name file) ''.zip'' \<longrightarrow>
        length records = 1 \<and> (\<forall>r\<in>set records. path r = name r \<and> name r = file_name file))
   \<and> formatCode maxLength \<lparr>file_name = ''project.zip'', file_text = t,
               file_zip = Inr [(''src/a.py'', \<lparr>dir = False, async_string = Inr a\<rparr>),
                               (''src/b.py'', \<lparr>dir = False, async_string = Inr b\<rparr>),
                               (''README.md'', \<lparr>dir = False, async_string = Inr c\<rparr>)]\<rparr>
       = Inr [\<lparr>name = ''a.py'', content = a, path = ''src/a.py'', formatted = Primitive (formatPython maxLength a)\<rparr>,
              \<lparr>name = ''b.py'', content = b, path = ''src/b.py'', formatted = Primitive (formatPython maxLength b)\<rparr>,
              \<lparr>name = ''README.md'', content = c, path = ''README.md'', formatted = Primitive c\<rparr>]"
proof -
  have zip: "\<exists>entries. file_zip file = Inr entries
         \<and> map path records = map fst (filter (\<lambda>e. \<not> dir (snd e)) entries)
         \<and> length records = length (filter (\<lambda>e. \<not> dir (snd e)) entries)
         \<and> (\<forall>r\<in>set records. last (split CHR ''/'' (path r)) = name r)
         \<and> ((\<forall>e\<in>set entries. \<not> dir (snd e) \<longrightarrow> fst e \<noteq> [])
              \<longrightarrow> (\<forall>r\<in>set records. path r \<noteq> []))"
    if h: "formatCode maxLength file = Inr records \<and> endsWith (file_name file) ''.zip''"
  proof -
    from h obtain entries where z: "file_zip file = Inr entries"
      and p: "map path records = map fst (filter (\<lambda>e. \<not> dir (snd e)) entries)"
      and n: "\<forall>r\<in>set records. last (split CHR ''/'' (path r)) = name r"
      using formatCode_zip by blast
    have "\<forall>r\<in>set records. path r \<noteq> []"
      if ne: "\<forall>e\<in>set entries. \<not> dir (snd e) \<longrightarrow> fst e \<noteq> []"
    proof
      fix r assume "r \<in> set records"
      then have "path r \<in> set (map path records)" by simp
      then have "path r \<in> fst ` {e \<in> set entries. \<not> dir (snd e)}" unfolding p by simp
      with ne show "path r \<noteq> []" by auto
    qed
    moreover have "length records = length (filter (\<lambda>e. \<not> dir (snd e)) entries)"
      using p by (metis length_map)
    ultimately show ?thesis using z p n by blast
  qed
  have single: "length records = 1 \<and> (\<forall>r\<in>set records. path r = name r \<and> name r = file_name file)"
    if h: "formatCode maxLength file = Inr records \<and> \<not> endsWith (file_name file) ''.zip''"
    using h formatCode_single [of maxLength "file" records] by auto
  show ?thesis
    using zip single formatCode_example [of maxLength t a b c] by blast
qed

theorem C4_file_records_witness:
  "formatCode 536870888 \<lparr>file_name = ''demo.zip'', file_text = [],
               file_zip = Inr [(''src/'', \<lparr>dir = True, async_string = Inr []\<rparr>),
                               (''src/a.py'', \<lparr>dir = False, async_string = Inr ''if x:''\<rparr>)]\<rparr>
     = Inr [\<lparr>name = ''a.py'', content = ''if x:'', path = ''src/a.py'',
              formatted = Primitive ''    if x:''\<rparr>]
   \<and> last (split CHR ''/'' ''src/a.py'') = ''a.py''
   \<and> formatCode 536870888 \<lparr>file_name = ''notes.txt'', file_text = ''hello'', file_zip = Inl (Error ''not a zip'')\<rparr>
     = Inr [\<lparr>name = ''notes.txt'', content = ''hello'', path = ''notes.txt'',
              formatted = Primitive ''hello''\<rparr>]"
proof -
  let ?zip = "\<lparr>file_name = ''demo.zip'', file_text = [],
               file_zip = Inr [(''src/'', \<lparr>dir = True, async_string = Inr []\<rparr>),
                               (''src/a.py'', \<lparr>dir = False, async_string = Inr ''if x:''\<rparr>)]\<rparr>"
  let ?records = "[\<lparr>name = ''a.py'', content = ''if x:'', path = ''src/a.py'',
                     formatted = Primitive ''    if x:''\<rparr>]"
  let ?single = "\<lparr>file_name = ''notes.txt'', file_text = ''hello'',
                   file_zip = Inl (Error ''not a zip'')\<rparr>"
  let ?one = "[\<lparr>name = ''notes.txt'', content = ''hello'', path = ''notes.txt'',
                 formatted = Primitive ''hello''\<rparr>]"
  have e: "endsWith ''demo.zip'' ''.zip''" "\<not> endsWith ''notes.txt'' ''.zip''"
    "getFormatter ''a.py'' = FormatPython" "getFormatter ''notes.txt'' = Identity"
    "reindent 4 colon_level ''if x:'' = ''    if x:''"
    by code_simp+
  have py: "formatPython 536870888 ''if x:'' = ''    if x:''"
    unfolding formatPython_eq e by simp
  have z: "formatCode 536870888 ?zip = Inr ?records"
    by (simp add: formatCode_def Let_def or_string_def pop_def e py)
  have zn: "endsWith (file_name ?zip) ''.zip''" by (simp add: e)
  have s: "formatCode 536870888 ?single = Inr ?one"
    by (simp add: formatCode_def Let_def e)
  have sn: "\<not> endsWith (file_name ?single) ''.zip''" by (simp add: e)
  have "\<forall>r\<in>set ?records. last (split CHR ''/'' (path r)) = name r"
    using C4_file_records [of 536870888 ?zip ?records] z zn by blast
  moreover have "length ?one = 1 \<and> (\<forall>r\<in>set ?one. path r = name r \<and> name r = file_name ?single)"
    using C4_file_records [of 536870888 ?single ?one] s sn by blast
  ultimately show ?thesis using z s by simp
qed

section \<open>The claims about the readme generator\<close>


lemma packageJson_absent:
  "find (\<lambda>f. name f = ''package.json'') files = None \<Longrightarrow> packageJson files = []"
  by (simp add: packageJson_def or_string_def)



lemma detectFrameworks_no_react:
  "\<not> js_includes (packageJson files) (quoted ''react'')
     \<Longrightarrow> count_list (detectFrameworks files) ''React'' = 0"
  by (simp add: detectFrameworks_def push_if_def Let_def)

lemma detectFrameworks_empty_iff:
  "detectFrameworks files = [] \<longleftrightarrow>
     \<not> js_includes (packageJson files) (quoted ''react'')
     \<and> \<not> js_includes (packageJson files) (quoted ''vue'')
     \<and> \<not> js_includes (packageJson files) (quoted ''@angular/core'')
     \<and> \<not> js_includes (allContent files) ''django''
     \<and> \<not> js_includes (allContent files) ''flask''
     \<and> \<not> js_includes (allContent files) ''express''
     \<and> \<not> js_includes (allContent files) ''spring-boot''"
  by (simp add: detectFrameworks_def push_if_def Let_def)




lemma find_Some_property: "find P xs = Some x \<Longrightarrow> P x \<and> x \<in> set xs"
  by (auto simp: find_Some_iff)

lemma findMainFile_loop_None:
  "findMainFile_loop ps files = None \<longleftrightarrow> (\<forall>f\<in>set files. toLowerCase (name f) \<notin> set ps)"
  by (induction ps) (auto simp: find_None_iff split: option.splits dest: find_Some_property)

lemma findMainFile_loop_Some:
  "findMainFile_loop ps files = Some m \<Longrightarrow>
     \<exists>i<length ps. find (\<lambda>f. toLowerCase (name f) = ps ! i) files = Some m
        \<and> (\<forall>j<i. \<forall>f\<in>set files. toLowerCase (name f) \<noteq> ps ! j)"
proof (induction ps)
  case Nil
  then show ?case by simp
next
  case (Cons p ps)
  show ?case
  proof (cases "find (\<lambda>f. toLowerCase (name f) = p) files")
    case None
    with Cons.prems have "findMainFile_loop ps files = Some m" by simp
    from Cons.IH [OF this] obtain i where i: "i < length ps"
      "find (\<lambda>f. toLowerCase (name f) = ps ! i) files = Some m"
      "\<forall>j<i. \<forall>f\<in>set files. toLowerCase (name f) \<noteq> ps ! j" by blast
    have "\<forall>j<Suc i. \<forall>f\<in>set files. toLowerCase (name f) \<noteq> (p # ps) ! j"
    proof (intro allI impI)
      fix j assume "j < Suc i"
      then show "\<forall>f\<in>set files. toLowerCase (name f) \<noteq> (p # ps) ! j"
        using None i(3) by (cases j) (auto simp: find_None_iff)
    qed
    with i show ?thesis by (intro exI [of _ "Suc i"]) simp
  next
    case (Some a)
    with Cons.prems have "a = m" by simp
    with Some show ?thesis by (intro exI [of _ 0]) simp
  qed
qed

lemma findMainFile_main_py:
  assumes "\<exists>f\<in>set files. toLowerCase (name f) = ''main.py''"
    and "\<forall>f\<in>set files. toLowerCase (name f) \<noteq> ''index.ts'' \<and> toLowerCase (name f) \<noteq> ''index.js''"
  shows "\<exists>m. findMainFile files = Some m \<and> toLowerCase (name m) = ''main.py''
           \<and> find (\<lambda>f. toLowerCase (name f) = ''main.py'') files = Some m"
proof -
  have a: "find (\<lambda>f. toLowerCase (name f) = ''index.ts'') files = None"
    and b: "find (\<lambda>f. toLowerCase (name f) = ''index.js'') files = None"
    using assms(2) by (auto simp: find_None_iff)
  from assms(1) obtain m where m: "find (\<lambda>f. toLowerCase (name f) = ''main.py'') files = Some m"
    by (cases "find (\<lambda>f. toLowerCase (name f) = ''main.py'') files") (auto simp: find_None_iff)
  then have "toLowerCase (name m) = ''main.py''" by (auto dest: find_Some_property)
  moreover have "findMainFile files = Some m"
    by (simp add: findMainFile_def mainFilePatterns_def a b m)
  ultimately show ?thesis using m by blast
qed

text \<open>
  Claim C6 says that a list containing both \<open>main.py\<close> and \<open>app.py\<close> gives the
  \<open>main.py\<close> record. With \<open>index.ts\<close> in the same list, the result is \<open>index.ts\<close>.
\<close>

theorem C6_index_first_counterexample:
  "findMainFile
     [\<lparr>name = ''index.ts'', content = [], path = ''index.ts''\<rparr>,
      \<lparr>name = ''main.py'', content = [], path = ''main.py''\<rparr>,
      \<lparr>name = ''app.py'', content = [], path = ''app.py''\<rparr>]
   = Some \<lparr>name = ''index.ts'', content = [], path = ''index.ts''\<rparr>"
  by code_simp

text \<open>
  Claim C6 as amended. For every file list, \<open>findMainFile\<close> returns null exactly when
  no record has a lowercased name among the patterns; otherwise it returns, for the first
  pattern in the order \<open>index.ts, index.js, main.py, app.py, server.js, app.js, index.html\<close>
  that some record matches, the first record of the list whose lowercased name equals it.
  In particular, for a list with a record whose lowercased name is \<open>main.py\<close> and none
  whose lowercased name is \<open>index.ts\<close> or \<open>index.js\<close>, it returns a record whose
  lowercased name is \<open>main.py\<close> (the first such record), in every order of the list and
  whether or not \<open>app.py\<close> is there.
\<close>

theorem C6_findMainFile:
  "(findMainFile files = None \<longleftrightarrow> (\<forall>f\<in>set files. toLowerCase (name f) \<notin> set mainFilePatterns))
   \<and> (findMainFile files = Some m \<longrightarrow>
        (\<exists>i<length mainFilePatterns.
           find (\<lambda>f. toLowerCase (name f) = mainFilePatterns ! i) files = Some m
           \<and> (\<forall>j<i. \<forall>f\<in>set files. toLowerCase (name f) \<noteq> mainFilePatterns ! j)))
   \<and> ((\<exists>f\<in>set files. toLowerCase (name f) = ''main.py'')
        \<and> (\<forall>f\<in>set files. toLowerCase (name f) \<noteq> ''index.ts'' \<and> toLowerCase (name f) \<noteq> ''index.js'')
        \<longrightarrow> (\<forall>files'. set files' = set files \<longrightarrow>
               (\<exists>r. findMainFile files' = Some r \<and> toLowerCase (name r) = ''main.py''
                  \<and> find (\<lambda>f. toLowerCase (name f) = ''main.py'') files' = Some r)))"
proof -
  have none: "findMainFile files = None \<longleftrightarrow> (\<forall>f\<in>set files. toLowerCase (name f) \<notin> set mainFilePatterns)"
    unfolding findMainFile_def by (rule findMainFile_loop_None)
  have some: "\<exists>i<length mainFilePatterns.
           find (\<lambda>f. toLowerCase (name f) = mainFilePatterns ! i) files = Some m
           \<and> (\<forall>j<i. \<forall>f\<in>set files. toLowerCase (name f) \<noteq> mainFilePatterns ! j)"
    if "findMainFile files = Some m"
    using that unfolding findMainFile_def by (rule findMainFile_loop_Some)
  have main: "\<exists>r. findMainFile files' = Some r \<and> toLowerCase (name r) = ''main.py''
                  \<and> find (\<lambda>f. toLowerCase (name f) = ''main.py'') files' = Some r"
    if "\<exists>f\<in>set files. toLowerCase (name f) = ''main.py''"
      "\<forall>f\<in>set files. toLowerCase (name f) \<noteq> ''index.ts'' \<and> toLowerCase (name f) \<noteq> ''index.js''"
      "set files' = set files" for files'
    using that by (intro findMainFile_main_py) simp_all
  show ?thesis using none some main by blast
qed

theorem C6_findMainFile_witness:
  "findMainFile [\<lparr>name = ''app.py'', content = [], path = ''app.py''\<rparr>,
                 \<lparr>name = ''Main.py'', content = [], path = ''src/Main.py''\<rparr>]
     = Some \<lparr>name = ''Main.py'', content = [], path = ''src/Main.py''\<rparr>
   \<and> findMainFile [\<lparr>name = ''Main.py'', content = [], path = ''src/Main.py''\<rparr>,
                   \<lparr>name = ''app.py'', content = [], path = ''app.py''\<rparr>]
     = Some \<lparr>name = ''Main.py'', content = [], path = ''src/Main.py''\<rparr>
   \<and> findMainFile [\<lparr>name = ''README.md'', content = [], path = ''README.md''\<rparr>] = None"
proof -
  let ?a = "\<lparr>name = ''app.py'', content = [], path = ''app.py''\<rparr>"
  let ?m = "\<lparr>name = ''Main.py'', content = [], path = ''src/Main.py''\<rparr>"
  let ?r = "\<lparr>name = ''README.md'', content = [], path = ''README.md''\<rparr>"
  have l: "toLowerCase (name ?a) = ''app.py''" "toLowerCase (name ?m) = ''main.py''"
    "toLowerCase (name ?r) = ''readme.md''"
    by code_simp+
  have h1: "\<exists>f\<in>set [?a, ?m]. toLowerCase (name f) = ''main.py''"
    using l by simp
  have h2: "\<forall>f\<in>set [?a, ?m]. toLowerCase (name f) \<noteq> ''index.ts'' \<and> toLowerCase (name f) \<noteq> ''index.js''"
    using l by simp
  have f1: "find (\<lambda>f. toLowerCase (name f) = ''main.py'') [?a, ?m] = Some ?m"
    and f2: "find (\<lambda>f. toLowerCase (name f) = ''main.py'') [?m, ?a] = Some ?m"
    using l by simp_all
  have s: "set [?m, ?a] = set [?a, ?m]" by auto
  have t: "\<forall>files'. set files' = set [?a, ?m] \<longrightarrow>
               (\<exists>r. findMainFile files' = Some r \<and> toLowerCase (name r) = ''main.py''
                  \<and> find (\<lambda>f. toLowerCase (name f) = ''main.py'') files' = Some r)"
    using C6_findMainFile [of "[?a, ?m]"] h1 h2 by blast
  from t obtain r where "findMainFile [?a, ?m] = Some r"
    "find (\<lambda>f. toLowerCase (name f) = ''main.py'') [?a, ?m] = Some r"
    by blast
  with f1 have first: "findMainFile [?a, ?m] = Some ?m" by simp
  from t s obtain r' where "findMainFile [?m, ?a] = Some r'"
    "find (\<lambda>f. toLowerCase (name f) = ''main.py'') [?m, ?a] = Some r'"
    by blast
  with f2 have second: "findMainFile [?m, ?a] = Some ?m" by simp
  have "findMainFile [?r] = None"
    using C6_findMainFile [of "[?r]"] l(3) by (simp add: mainFilePatterns_def)
  with first second show ?thesis by simp
qed

text \<open>
  Claim C7. \<open>generateReadme\<close> of the empty file list does not throw. It returns the text
  below: after the line of the file count, the line of the statistics breakdown is empty;
  the line of the technologies section is empty, heading and all; and the main entry
  section reads \<open>No clear entry point detected.\<close>
\<close>

theorem C7_generateReadme_empty:
  "generateReadme [] =
     Inr (concat
                 [''# Project Documentation\<newline>'',
             ''\<newline>'',
             ''## '' @ [CHR 0xF0, CHR 0x9F, CHR 0x93, CHR 0x81] @ '' Project Structure\<newline>'',
             [CHR 0x60, CHR 0x60, CHR 0x60] @ ''\<newline>'',
             ''\<newline>'',
             [CHR 0x60, CHR 0x60, CHR 0x60] @ ''\<newline>'',
             ''\<newline>'',
             ''## '' @ [CHR 0xF0, CHR 0x9F, CHR 0x94, CHR 0x8D] @ '' Project Overview\<newline>'',
             ''This project contains 0 files across various technologies:\<newline>'',
             ''\<newline>'',
             ''\<newline>'',
             ''\<newline>'',
             ''\<newline>'',
             ''## '' @ [CHR 0xF0, CHR 0x9F, CHR 0x9A, CHR 0x80] @ '' Getting Started\<newline>'',
             ''1. Clone the repository\<newline>'',
             ''2. Install dependencies:\<newline>'',
             ''   '' @ [CHR 0x60, CHR 0x60, CHR 0x60] @ ''bash\<newline>'',
             ''   npm install\<newline>'',
             ''   # or\<newline>'',
             ''   yarn install\<newline>'',
             ''   '' @ [CHR 0x60, CHR 0x60, CHR 0x60] @ ''\<newline>'',
             ''3. Run the project:\<newline>'',
             ''   '' @ [CHR 0x60, CHR 0x60, CHR 0x60] @ ''bash\<newline>'',
             ''   npm start\<newline>'',
             ''   # or\<newline>'',
             ''   yarn start\<newline>'',
             ''   '' @ [CHR 0x60, CHR 0x60, CHR 0x60] @ ''\<newline>'',
             ''\<newline>'',
             ''## '' @ [CHR 0xF0, CHR 0x9F, CHR 0x93, CHR 0x8C] @ '' Main Entry Point\<newline>'',
             ''No clear entry point detected.\<newline>'',
             ''\<newline>'',
             ''## '' @ [CHR 0xF0, CHR 0x9F, CHR 0x93, CHR 0x9A] @ '' Project Structure Explanation\<newline>'',
             ''\<newline>'',
             ''\<newline>'',
             ''## '' @ [CHR 0xF0, CHR 0x9F, CHR 0x94, CHR 0xA7] @ '' Configuration Files\<newline>'',
             ''\<newline>'',
             ''\<newline>'',
             ''## '' @ [CHR 0xF0, CHR 0x9F, CHR 0x92, CHR 0xA1] @ '' Additional Notes\<newline>'',
             ''- The project uses a custom stack\<newline>'',
             ''- File organization follows a flat structure\<newline>'',
             ''- JavaScript is used as the primary language\<newline>'',
             ''\<newline>'',
             ''## '' @ [CHR 0xF0, CHR 0x9F, CHR 0xA4, CHR 0x9D] @ '' Contributing\<newline>'',
             ''1. Fork the repository\<newline>'',
             ''2. Create your feature branch\<newline>'',
             ''3. Commit your changes\<newline>'',
             ''4. Push to the branch\<newline>'',
             ''5. Create a new Pull Request\<newline>'',
             ''\<newline>'',
             ''## '' @ [CHR 0xF0, CHR 0x9F, CHR 0x93, CHR 0x9D] @ '' License\<newline>'',
             ''This project is licensed under the terms specified in the LICENSE file, if present.\<newline>''])
   \<and> analyzeCodebase [] = []
   \<and> stats_section (analyzeCodebase []) = []
   \<and> detectFrameworks [] = []
   \<and> technologies_section (detectFrameworks []) = []
   \<and> findMainFile [] = None
   \<and> main_entry_section (findMainFile []) = ''No clear entry point detected.''"
proof -
  have a: "analyzeCodebase [] = []" by (simp add: analyzeCodebase_def)
  have d: "detectFrameworks [] = []"
    by (simp add: detectFrameworks_empty_iff packageJson_def allContent_def or_string_def quoted_def)
  have f: "findMainFile [] = None"
    by (simp add: findMainFile_def findMainFile_loop_None)
  have n: "number_toString 0 = ''0''" by code_simp
  have t: "template \<lparr>treeText = [], fileCount = ''0'', statsText = [], technologies = [],
                    mainEntry = ''No clear entry point detected.'', structureText = [],
                    configFiles = [], stackNote = ''custom stack'', organizationNote = ''a flat'',
                    languageNote = ''JavaScript is used as the primary language''\<rparr>
           = concat
                 [''# Project Documentation\<newline>'',
             ''\<newline>'',
             ''## '' @ [CHR 0xF0, CHR 0x9F, CHR 0x93, CHR 0x81] @ '' Project Structure\<newline>'',
             [CHR 0x60, CHR 0x60, CHR 0x60] @ ''\<newline>'',
             ''\<newline>'',
             [CHR 0x60, CHR 0x60, CHR 0x60] @ ''\<newline>'',
             ''\<newline>'',
             ''## '' @ [CHR 0xF0, CHR 0x9F, CHR 0x94, CHR 0x8D] @ '' Project Overview\<newline>'',
             ''This project contains 0 files across various technologies:\<newline>'',
             ''\<newline>'',
             ''\<newline>'',
             ''\<newline>'',
             ''\<newline>'',
             ''## '' @ [CHR 0xF0, CHR 0x9F, CHR 0x9A, CHR 0x80] @ '' Getting Started\<newline>'',
             ''1. Clone the repository\<newline>'',
             ''2. Install dependencies:\<newline>'',
             ''   '' @ [CHR 0x60, CHR 0x60, CHR 0x60] @ ''bash\<newline>'',
             ''   npm install\<newline>'',
             ''   # or\<newline>'',
             ''   yarn install\<newline>'',
             ''   '' @ [CHR 0x60, CHR 0x60, CHR 0x60] @ ''\<newline>'',
             ''3. Run the project:\<newline>'',
             ''   '' @ [CHR 0x60, CHR 0x60, CHR 0x60] @ ''bash\<newline>'',
             ''   npm start\<newline>'',
             ''   # or\<newline>'',
             ''   yarn start\<newline>'',
             ''   '' @ [CHR 0x60, CHR 0x60, CHR 0x60] @ ''\<newline>'',
             ''\<newline>'',
             ''## '' @ [CHR 0xF0, CHR 0x9F, CHR 0x93, CHR 0x8C] @ '' Main Entry Point\<newline>'',
             ''No clear entry point detected.\<newline>'',
             ''\<newline>'',
             ''## '' @ [CHR 0xF0, CHR 0x9F, CHR 0x93, CHR 0x9A] @ '' Project Structure Explanation\<newline>'',
             ''\<newline>'',
             ''\<newline>'',
             ''## '' @ [CHR 0xF0, CHR 0x9F, CHR 0x94, CHR 0xA7] @ '' Configuration Files\<newline>'',
             ''\<newline>'',
             ''\<newline>'',
             ''## '' @ [CHR 0xF0, CHR 0x9F, CHR 0x92, CHR 0xA1] @ '' Additional Notes\<newline>'',
             ''- The project uses a custom stack\<newline>'',
             ''- File organization follows a flat structure\<newline>'',
             ''- JavaScript is used as the primary language\<newline>'',
             ''\<newline>'',
             ''## '' @ [CHR 0xF0, CHR 0x9F, CHR 0xA4, CHR 0x9D] @ '' Contributing\<newline>'',
             ''1. Fork the repository\<newline>'',
             ''2. Create your feature branch\<newline>'',
             ''3. Commit your changes\<newline>'',
             ''4. Push to the branch\<newline>'',
             ''5. Create a new Pull Request\<newline>'',
             ''\<newline>'',
             ''## '' @ [CHR 0xF0, CHR 0x9F, CHR 0x93, CHR 0x9D] @ '' License\<newline>'',
             ''This project is licensed under the terms specified in the LICENSE file, if present.\<newline>'']"
    by code_simp
  have g: "generateReadme [] =
     Inr (template \<lparr>treeText = [], fileCount = ''0'', statsText = [], technologies = [],
                    mainEntry = ''No clear entry point detected.'', structureText = [],
                    configFiles = [], stackNote = ''custom stack'', organizationNote = ''a flat'',
                    languageNote = ''JavaScript is used as the primary language''\<rparr>)"
    by (simp add: generateReadme_def buildFileTree_def a d f n stats_section_def
        technologies_section_def main_entry_section_def structure_section_def
        config_section_def stack_note_def organization_note_def language_note_def)
  show ?thesis
    unfolding g t
    by (simp add: a d f stats_section_def technologies_section_def main_entry_section_def)
qed

end
